theory Spec2Isabelle
  imports
    Main
    "HOL-Library.AList"
    "HOL-Library.Char_ord"
    "HOL-Library.List_Lexorder"
    "HOL-Library.Product_Lexorder"
begin

section \<open>Python values and built-ins used by the importer\<close>

text \<open>
  The importer (\<^verbatim>\<open>src/scripts/mta_import_core_partridge.py\<close>) reads cells of pandas
  data frames. A cell is \<^verbatim>\<open>None\<close> (an optional column that the script itself added),
  a missing value (\<^verbatim>\<open>NaN\<close>, for which \<^verbatim>\<open>pd.isna\<close> holds), a text or an integer.
  Every normalizer starts with \<^verbatim>\<open>str(value).strip()\<close>, so a float cell behaves as the
  text of its \<^verbatim>\<open>repr\<close> and is covered by \<open>PStr\<close>. Texts are ASCII: a \<open>char\<close> stands for
  a code point below 128.
\<close>

datatype pyval = PNone | PNaN | PStr string | PInt int

text \<open>
  The exceptions that leave the importer: the \<^verbatim>\<open>OverflowError\<close> of \<^verbatim>\<open>int\<close>, the
  \<^verbatim>\<open>RuntimeError\<close> of a missing dataset or of missing columns (with its context and the
  missing names), and an error raised by the database driver.
\<close>

datatype error =
    OverflowError
  | RuntimeError string "string list"
  | DatabaseError

subsection \<open>\<^verbatim>\<open>str\<close>, \<^verbatim>\<open>str.strip\<close>, \<^verbatim>\<open>str.upper\<close>\<close>

definition digit_char :: "nat \<Rightarrow> char" where
  "digit_char d = char_of (48 + d)"

fun str_nat :: "nat \<Rightarrow> string" where
  "str_nat n = (if n < 10 then [digit_char n] else str_nat (n div 10) @ [digit_char (n mod 10)])"

declare str_nat.simps [simp del]

definition str_int :: "int \<Rightarrow> string" where
  "str_int i = (if i < 0 then CHR ''-'' # str_nat (nat (- i)) else str_nat (nat i))"

text \<open>\<^verbatim>\<open>str.isspace\<close> on ASCII: TAB, LF, VT, FF, CR, the separators FS, GS, RS, US, and space.\<close>

definition py_isspace :: "char \<Rightarrow> bool" where
  "py_isspace c \<longleftrightarrow> (of_char c :: nat) \<in> {9, 10, 11, 12, 13, 28, 29, 30, 31, 32}"

definition py_strip :: "string \<Rightarrow> string" where
  "py_strip s = rev (dropWhile py_isspace (rev (dropWhile py_isspace s)))"

definition upper_char :: "char \<Rightarrow> char" where
  "upper_char c = (let n = (of_char c :: nat) in if 97 \<le> n \<and> n \<le> 122 then char_of (n - 32) else c)"

definition lower_char :: "char \<Rightarrow> char" where
  "lower_char c = (let n = (of_char c :: nat) in if 65 \<le> n \<and> n \<le> 90 then char_of (n + 32) else c)"

definition py_upper :: "string \<Rightarrow> string" where
  "py_upper s = map upper_char s"

subsection \<open>\<^verbatim>\<open>float(str)\<close> and \<^verbatim>\<open>int(float)\<close>\<close>

text \<open>
  A Python float is a binary64 value: not-a-number, an infinity, or \<open>m * 2 ^ q\<close> for
  integers \<open>m\<close> and \<open>q\<close>.
\<close>

datatype pyfloat = Nan | Inf | NegInf | Finite int int

definition is_digit :: "char \<Rightarrow> bool" where
  "is_digit c \<longleftrightarrow> c \<in> set ''0123456789''"

definition digit_value :: "char \<Rightarrow> nat" where
  "digit_value c = of_char c - 48"

definition digits_value :: "string \<Rightarrow> int" where
  "digits_value ds = foldl (\<lambda>a c. 10 * a + int (digit_value c)) 0 ds"

text \<open>
  An underscore is accepted only between two digits and is then dropped; the first
  argument is the previous character (NUL at the start).
\<close>

fun strip_underscores :: "char \<Rightarrow> string \<Rightarrow> string option" where
  "strip_underscores prev [] = (if prev = CHR ''_'' then None else Some [])"
| "strip_underscores prev (c # cs) =
    (if c = CHR ''_'' then (if is_digit prev then strip_underscores c cs else None)
     else if prev = CHR ''_'' \<and> \<not> is_digit c then None
     else map_option ((#) c) (strip_underscores c cs))"

text \<open>
  \<^verbatim>\<open>int.bit_length\<close> of a positive integer; \<open>floor_log2_ratio n d\<close> is the floor of the
  binary logarithm of \<open>n / d\<close> for positive \<open>n\<close> and \<open>d\<close>.
\<close>

function bit_length :: "int \<Rightarrow> nat" where
  "bit_length n = (if n \<le> 0 then 0 else Suc (bit_length (n div 2)))"
  by pat_completeness auto
termination
  by (relation "measure nat") auto

declare bit_length.simps [simp del]

definition floor_log2_ratio :: "int \<Rightarrow> int \<Rightarrow> int" where
  "floor_log2_ratio n d =
    (let k = int (bit_length n) - int (bit_length d)
     in if (if 0 \<le> k then d * 2 ^ nat k \<le> n else d \<le> n * 2 ^ nat (- k)) then k else k - 1)"

definition round_half_even :: "int \<Rightarrow> int \<Rightarrow> int" where
  "round_half_even num den =
    (let m = num div den; r = num mod den
     in if den < 2 * r \<or> (2 * r = den \<and> odd m) then m + 1 else m)"

text \<open>
  The binary64 value nearest to \<open>n / d\<close> (ties to even) for \<open>n \<ge> 0\<close> and \<open>d > 0\<close>: 53
  significant bits, the least exponent \<open>-1074\<close>; \<open>None\<close> when the rounded value reaches
  \<open>2 ^ 1024\<close>.
\<close>

definition to_binary64 :: "int \<Rightarrow> int \<Rightarrow> (int \<times> int) option" where
  "to_binary64 n d =
    (if n = 0 then Some (0, 0)
     else
       let q = max (floor_log2_ratio n d - 52) (- 1074);
           m = (if 0 \<le> q then round_half_even n (d * 2 ^ nat q)
                else round_half_even (n * 2 ^ nat (- q)) d)
       in if 971 < q \<or> (q = 971 \<and> 2 ^ 53 \<le> m) then None else Some (m, q))"

text \<open>
  The unsigned decimal literal: digits, an optional point and digits (one digit at
  least in all), an optional exponent \<^verbatim>\<open>e\<close> or \<^verbatim>\<open>E\<close> with an optional sign and one
  digit at least. The result is the digit string read as an integer and the power
  of ten that scales it.
\<close>

definition parse_exponent :: "string \<Rightarrow> int option" where
  "parse_exponent s =
    (case s of
       [] \<Rightarrow> Some 0
     | c # cs \<Rightarrow>
         if c = CHR ''e'' \<or> c = CHR ''E'' then
           (let (neg, ds) =
                  (case cs of
                     [] \<Rightarrow> (False, [])
                   | x # xs \<Rightarrow>
                       if x = CHR ''-'' then (True, xs)
                       else if x = CHR ''+'' then (False, xs)
                       else (False, cs))
            in if ds \<noteq> [] \<and> list_all is_digit ds
               then Some (if neg then - digits_value ds else digits_value ds)
               else None)
         else None)"

definition parse_decimal :: "string \<Rightarrow> (int \<times> int) option" where
  "parse_decimal s =
    (let ip = takeWhile is_digit s;
         r1 = dropWhile is_digit s;
         (fp, r2) =
           (case r1 of
              [] \<Rightarrow> ([], [])
            | c # cs \<Rightarrow>
                if c = CHR ''.'' then (takeWhile is_digit cs, dropWhile is_digit cs)
                else ([], r1))
     in if ip @ fp = [] then None
        else
          (case parse_exponent r2 of
             None \<Rightarrow> None
           | Some e \<Rightarrow> Some (digits_value (ip @ fp), e - int (length fp))))"

definition split_sign :: "string \<Rightarrow> bool \<times> string" where
  "split_sign s =
    (case s of
       [] \<Rightarrow> (False, [])
     | c # cs \<Rightarrow>
         if c = CHR ''-'' then (True, cs)
         else if c = CHR ''+'' then (False, cs)
         else (False, s))"

text \<open>\<^verbatim>\<open>float\<close> strips the ASCII white space of C (TAB to CR, and space).\<close>

definition c_isspace :: "char \<Rightarrow> bool" where
  "c_isspace c \<longleftrightarrow> (of_char c :: nat) \<in> {9, 10, 11, 12, 13, 32}"

text \<open>\<^verbatim>\<open>float(s)\<close> for a text \<open>s\<close>; \<open>None\<close> is \<^verbatim>\<open>ValueError\<close>.\<close>

definition py_float :: "string \<Rightarrow> pyfloat option" where
  "py_float s =
    (case strip_underscores (CHR 0x00) s of
       None \<Rightarrow> None
     | Some t \<Rightarrow>
         (let (neg, body) = split_sign (rev (dropWhile c_isspace (rev (dropWhile c_isspace t))));
              low = map lower_char body
          in if low = ''inf'' \<or> low = ''infinity'' then Some (if neg then NegInf else Inf)
             else if low = ''nan'' then Some Nan
             else
               (case parse_decimal body of
                  None \<Rightarrow> None
                | Some (ds, e) \<Rightarrow>
                    (case (if 0 \<le> e then to_binary64 (ds * 10 ^ nat e) 1
                           else to_binary64 ds (10 ^ nat (- e))) of
                       None \<Rightarrow> Some (if neg then NegInf else Inf)
                     | Some (m, q) \<Rightarrow> Some (Finite (if neg then - m else m) q)))))"

text \<open>
  \<^verbatim>\<open>int(x)\<close> for a float \<open>x\<close>: truncation towards zero; \<^verbatim>\<open>ValueError\<close> on not-a-number and
  \<^verbatim>\<open>OverflowError\<close> on an infinity.
\<close>

datatype int_of_float = IntValueError | IntOverflowError | IntOk int

definition py_int_of_float :: "pyfloat \<Rightarrow> int_of_float" where
  "py_int_of_float x =
    (case x of
       Nan \<Rightarrow> IntValueError
     | Inf \<Rightarrow> IntOverflowError
     | NegInf \<Rightarrow> IntOverflowError
     | Finite m q \<Rightarrow>
         IntOk (if 0 \<le> q then m * 2 ^ nat q
                else if 0 \<le> m then m div 2 ^ nat (- q)
                else - ((- m) div 2 ^ nat (- q))))"

section \<open>Row normalizers\<close>

definition normalize_text :: "pyval \<Rightarrow> string" where
  "normalize_text v =
    (case v of
       PNone \<Rightarrow> []
     | PNaN \<Rightarrow> []
     | PStr s \<Rightarrow> py_strip s
     | PInt i \<Rightarrow> py_strip (str_int i))"

definition normalize_optional_text :: "pyval \<Rightarrow> string option" where
  "normalize_optional_text v =
    (let normalized = normalize_text v in if normalized = [] then None else Some normalized)"

definition normalize_route_id :: "pyval \<Rightarrow> string" where
  "normalize_route_id v = py_upper (normalize_text v)"

text \<open>
  \<^verbatim>\<open>int(float(normalized))\<close> inside \<^verbatim>\<open>try ... except ValueError\<close>: a \<^verbatim>\<open>ValueError\<close> of
  \<^verbatim>\<open>float\<close> or of \<^verbatim>\<open>int\<close> gives \<^verbatim>\<open>None\<close>; the \<^verbatim>\<open>OverflowError\<close> of \<^verbatim>\<open>int\<close> is not caught.
\<close>

definition parse_int_or_none :: "pyval \<Rightarrow> error + int option" where
  "parse_int_or_none v =
    (let normalized = normalize_text v
     in if normalized = [] then Inr None
        else
          (case py_float normalized of
             None \<Rightarrow> Inr None
           | Some x \<Rightarrow>
               (case py_int_of_float x of
                  IntValueError \<Rightarrow> Inr None
                | IntOverflowError \<Rightarrow> Inl OverflowError
                | IntOk n \<Rightarrow> Inr (Some n))))"

definition parse_direction_id :: "pyval \<Rightarrow> error + int" where
  "parse_direction_id v =
    (let raw = py_upper (normalize_text v)
     in if raw = [] then Inr 0
        else if raw = ''N'' then Inr 0
        else if raw = ''S'' then Inr 1
        else
          (case parse_int_or_none (PStr raw) of
             Inl e \<Rightarrow> Inl e
           | Inr parsed \<Rightarrow> if parsed = Some 0 \<or> parsed = Some 1 then Inr (the parsed) else Inr 0))"

definition parse_numeric_or_none :: "pyval \<Rightarrow> string option" where
  "parse_numeric_or_none v =
    (let normalized = normalize_text v
     in if normalized = [] then None
        else (case py_float normalized of None \<Rightarrow> None | Some x \<Rightarrow> Some normalized))"

section \<open>Data model of \<^verbatim>\<open>process_mode\<close>\<close>

datatype mode = Subway | Bus | Lirr | Mnr

definition MODE_DEFAULT_ROUTE_TYPE :: "mode \<Rightarrow> int" where
  "MODE_DEFAULT_ROUTE_TYPE m = (case m of Subway \<Rightarrow> 1 | Bus \<Rightarrow> 3 | Lirr \<Rightarrow> 2 | Mnr \<Rightarrow> 2)"

text \<open>
  A data frame: its column names and its rows, a row giving the cell of each column.
  A feed is the four frames that \<^verbatim>\<open>ptg.load_feed\<close> returned for one dataset directory.
\<close>

type_synonym row = "string \<Rightarrow> pyval"

record data_frame =
  df_columns :: "string list"
  df_rows :: "row list"

record feed =
  dataset_dir :: string
  stops :: data_frame
  routes :: data_frame
  trips :: data_frame
  stop_times :: data_frame

record station =
  stop_id :: string
  stop_name :: string
  stop_lat :: "string option"
  stop_lon :: "string option"
  parent_station :: "string option"
  child_stop_ids :: "string set"

record route =
  route_id :: string
  agency_id :: "string option"
  route_short_name :: string
  route_long_name :: string
  route_desc :: "string option"
  route_type :: int
  route_url :: "string option"
  route_color :: "string option"
  route_text_color :: "string option"
  route_sort_order :: "int option"

text \<open>
  A Python \<^verbatim>\<open>dict\<close> is an association list in insertion order: \<open>map_of\<close> reads it and
  \<open>AList.update\<close> stores a value, in place for a key that is present and at the end for a
  new one.
\<close>

type_synonym station_map = "(string \<times> station) list"
type_synonym route_map = "(string \<times> route) list"
type_synonym route_stop_key = "string \<times> int \<times> string"
type_synonym route_stop_map = "(route_stop_key \<times> int option) list"
type_synonym trip_map = "(string \<times> string \<times> int) list"

record pm_state =
  station_map :: station_map
  route_map :: route_map
  route_stop_map :: route_stop_map
  missing_trip_refs :: nat
  missing_stop_ids :: "string set"

record station_row =
  row_stop_id :: string
  row_stop_name :: string
  row_stop_lat :: "string option"
  row_stop_lon :: "string option"
  row_parent_station :: "string option"
  child_stop_ids_json :: "string list"

record route_stop_row =
  rs_route_id :: string
  rs_direction_id :: int
  rs_stop_id :: string
  route_stop_sort_order :: "int option"

record pm_result =
  count_stations :: nat
  count_routes :: nat
  count_routeStops :: nat
  missingTripRefs :: nat
  missingStopRefs :: nat
  sampleMissingStopIds :: "string list"
  result_missing_stop_ids :: "string set"
  stations_rows :: "station_row list"
  routes_rows :: "route list"
  route_stops_rows :: "route_stop_row list"

subsection \<open>Frames\<close>

definition require_columns :: "data_frame \<Rightarrow> string list \<Rightarrow> string \<Rightarrow> error + unit" where
  "require_columns df required context =
    (let missing = filter (\<lambda>column. column \<notin> set (df_columns df)) required
     in if missing \<noteq> [] then Inl (RuntimeError context missing) else Inr ())"

text \<open>\<^verbatim>\<open>if optional not in df.columns: df[optional] = None\<close>\<close>

definition add_optional :: "string \<Rightarrow> data_frame \<Rightarrow> data_frame" where
  "add_optional optional df =
    (if optional \<in> set (df_columns df) then df
     else \<lparr>df_columns = df_columns df @ [optional],
           df_rows = map (\<lambda>r. r(optional := PNone)) (df_rows df)\<rparr>)"

text \<open>A loop whose body may raise stops at the first error.\<close>

fun for_rows :: "('r \<Rightarrow> 's \<Rightarrow> error + 's) \<Rightarrow> 'r list \<Rightarrow> 's \<Rightarrow> error + 's" where
  "for_rows body [] s = Inr s"
| "for_rows body (r # rs) s =
    (case body r s of Inl e \<Rightarrow> Inl e | Inr s' \<Rightarrow> for_rows body rs s')"

text \<open>\<^verbatim>\<open>a or b\<close> on texts, and the truth value of an optional text.\<close>

definition or_text :: "string \<Rightarrow> string \<Rightarrow> string" where
  "or_text a b = (if a = [] then b else a)"

definition truthy :: "string option \<Rightarrow> bool" where
  "truthy v \<longleftrightarrow> (case v of None \<Rightarrow> False | Some s \<Rightarrow> s \<noteq> [])"

subsection \<open>The stops loop (source lines 191 to 225)\<close>

text \<open>Line 202: the canonical station id of a stop row.\<close>

definition station_id_of :: "mode \<Rightarrow> row \<Rightarrow> string" where
  "station_id_of mode r =
    (let raw_stop_id = normalize_text (r ''stop_id'');
         normalized_parent = normalize_text (r ''parent_station'')
     in if mode = Bus then raw_stop_id else or_text normalized_parent raw_stop_id)"

text \<open>Lines 207 to 214: the station made at the first sight of a station id.\<close>

definition new_station :: "string \<Rightarrow> row \<Rightarrow> station" where
  "new_station station_id r =
    (let raw_stop_id = normalize_text (r ''stop_id'');
         normalized_name = or_text (normalize_text (r ''stop_name'')) raw_stop_id;
         normalized_parent = normalize_text (r ''parent_station'')
     in \<lparr>stop_id = station_id,
         stop_name = normalized_name,
         stop_lat = parse_numeric_or_none (r ''stop_lat''),
         stop_lon = parse_numeric_or_none (r ''stop_lon''),
         parent_station = (if normalized_parent = [] then None else Some normalized_parent),
         child_stop_ids = {}\<rparr>)"

text \<open>Lines 217 to 222: a later sight fills the name and the coordinates that are still empty.\<close>

definition fill_station :: "row \<Rightarrow> station \<Rightarrow> station" where
  "fill_station r station =
    (let raw_stop_id = normalize_text (r ''stop_id'');
         normalized_name = or_text (normalize_text (r ''stop_name'')) raw_stop_id
     in station
        \<lparr>stop_name :=
           (if stop_name station = [] \<or> stop_name station = stop_id station
            then normalized_name else stop_name station),
         stop_lat :=
           (if stop_lat station = None then parse_numeric_or_none (r ''stop_lat'')
            else stop_lat station),
         stop_lon :=
           (if stop_lon station = None then parse_numeric_or_none (r ''stop_lon'')
            else stop_lon station)\<rparr>)"

text \<open>Lines 224 and 225.\<close>

definition add_child :: "mode \<Rightarrow> string \<Rightarrow> station \<Rightarrow> station" where
  "add_child mode raw_stop_id station =
    (if mode \<noteq> Bus
     then station\<lparr>child_stop_ids := insert raw_stop_id (child_stop_ids station)\<rparr>
     else station)"

text \<open>
  The loop body. The state is the station map of the mode and the lookup
  \<^verbatim>\<open>raw_stop_to_station\<close> of the dataset.
\<close>

definition stops_row ::
  "mode \<Rightarrow> row \<Rightarrow> station_map \<times> (string \<times> string) list \<Rightarrow> station_map \<times> (string \<times> string) list"
where
  "stops_row mode r st =
    (let raw_stop_id = normalize_text (r ''stop_id'')
     in if raw_stop_id = [] then st
        else
          let station_id = station_id_of mode r;
              raw_stop_to_station = AList.update raw_stop_id station_id (snd st);
              station =
                (case map_of (fst st) station_id of
                   None \<Rightarrow> new_station station_id r
                 | Some existing \<Rightarrow> fill_station r existing)
          in (AList.update station_id (add_child mode raw_stop_id station) (fst st),
              raw_stop_to_station))"

subsection \<open>The routes loop (source lines 227 to 292)\<close>

definition incoming_route :: "mode \<Rightarrow> row \<Rightarrow> string \<Rightarrow> error + route" where
  "incoming_route mode r normalized_route_id =
    (case parse_int_or_none (r ''route_type'') of
       Inl e \<Rightarrow> Inl e
     | Inr parsed_type \<Rightarrow>
         (case parse_int_or_none (r ''route_sort_order'') of
            Inl e \<Rightarrow> Inl e
          | Inr parsed_sort_order \<Rightarrow>
              Inr \<lparr>route_id = normalized_route_id,
                   agency_id = normalize_optional_text (r ''agency_id''),
                   route_short_name = normalize_text (r ''route_short_name''),
                   route_long_name = normalize_text (r ''route_long_name''),
                   route_desc = normalize_optional_text (r ''route_desc''),
                   route_type =
                     (if parsed_type = None \<or> parsed_type = Some 0
                      then MODE_DEFAULT_ROUTE_TYPE mode else the parsed_type),
                   route_url = normalize_optional_text (r ''route_url''),
                   route_color = normalize_optional_text (r ''route_color''),
                   route_text_color = normalize_optional_text (r ''route_text_color''),
                   route_sort_order = parsed_sort_order\<rparr>))"

definition merge_route :: "mode \<Rightarrow> route \<Rightarrow> route \<Rightarrow> route" where
  "merge_route mode existing incoming =
    existing
    \<lparr>agency_id :=
       (if \<not> truthy (agency_id existing) \<and> truthy (agency_id incoming)
        then agency_id incoming else agency_id existing),
     route_short_name :=
       (if route_short_name existing = [] \<and> route_short_name incoming \<noteq> []
        then route_short_name incoming else route_short_name existing),
     route_long_name :=
       (if route_long_name existing = [] \<and> route_long_name incoming \<noteq> []
        then route_long_name incoming else route_long_name existing),
     route_desc :=
       (if \<not> truthy (route_desc existing) \<and> truthy (route_desc incoming)
        then route_desc incoming else route_desc existing),
     route_type :=
       (if route_type existing = MODE_DEFAULT_ROUTE_TYPE mode
           \<and> route_type incoming \<noteq> MODE_DEFAULT_ROUTE_TYPE mode
        then route_type incoming else route_type existing),
     route_url :=
       (if \<not> truthy (route_url existing) \<and> truthy (route_url incoming)
        then route_url incoming else route_url existing),
     route_color :=
       (if \<not> truthy (route_color existing) \<and> truthy (route_color incoming)
        then route_color incoming else route_color existing),
     route_text_color :=
       (if \<not> truthy (route_text_color existing) \<and> truthy (route_text_color incoming)
        then route_text_color incoming else route_text_color existing),
     route_sort_order :=
       (if route_sort_order existing = None \<and> route_sort_order incoming \<noteq> None
        then route_sort_order incoming else route_sort_order existing)\<rparr>"

definition routes_row :: "mode \<Rightarrow> row \<Rightarrow> route_map \<Rightarrow> error + route_map" where
  "routes_row mode r rm =
    (let normalized_route_id = normalize_route_id (r ''route_id'')
     in if normalized_route_id = [] then Inr rm
        else
          (case incoming_route mode r normalized_route_id of
             Inl e \<Rightarrow> Inl e
           | Inr incoming \<Rightarrow>
               (case map_of rm normalized_route_id of
                  None \<Rightarrow> Inr (AList.update normalized_route_id incoming rm)
                | Some existing \<Rightarrow>
                    Inr (AList.update normalized_route_id (merge_route mode existing incoming) rm))))"

subsection \<open>The trips loop (source lines 294 to 303)\<close>

definition trips_row :: "row \<Rightarrow> trip_map \<Rightarrow> error + trip_map" where
  "trips_row r tm =
    (let normalized_trip_id = normalize_text (r ''trip_id'');
         normalized_route_id = normalize_route_id (r ''route_id'')
     in if normalized_trip_id = [] \<or> normalized_route_id = [] then Inr tm
        else
          (case parse_direction_id (r ''direction_id'') of
             Inl e \<Rightarrow> Inl e
           | Inr direction \<Rightarrow> Inr (AList.update normalized_trip_id (normalized_route_id, direction) tm)))"

subsection \<open>The stop-times loop (source lines 305 to 334)\<close>

text \<open>
  Lines 330 to 334: \<^verbatim>\<open>route_stop_map.get(key)\<close> is \<^verbatim>\<open>None\<close> for a key that is not there and
  for a key stored with \<^verbatim>\<open>None\<close>.
\<close>

definition record_sequence :: "route_stop_key \<Rightarrow> int option \<Rightarrow> route_stop_map \<Rightarrow> route_stop_map" where
  "record_sequence route_stop_key next_sequence rsm =
    (case map_of rsm route_stop_key of
       None \<Rightarrow> AList.update route_stop_key next_sequence rsm
     | Some None \<Rightarrow> AList.update route_stop_key next_sequence rsm
     | Some (Some existing_sequence) \<Rightarrow>
         (case next_sequence of
            None \<Rightarrow> rsm
          | Some n \<Rightarrow> if n < existing_sequence then AList.update route_stop_key (Some n) rsm else rsm))"

text \<open>A run of such updates, in order, each a key and the sequence parsed from the row.\<close>

definition record_all :: "(route_stop_key \<times> int option) list \<Rightarrow> route_stop_map \<Rightarrow> route_stop_map" where
  "record_all updates rsm = fold (\<lambda>u. record_sequence (fst u) (snd u)) updates rsm"

definition stop_times_row ::
  "trip_map \<Rightarrow> (string \<times> string) list \<Rightarrow> station_map \<Rightarrow> row
    \<Rightarrow> route_stop_map \<times> nat \<times> string set \<Rightarrow> error + route_stop_map \<times> nat \<times> string set"
where
  "stop_times_row tm raw_stop_to_station sm r st =
    (let normalized_trip_id = normalize_text (r ''trip_id'');
         raw_stop_id = normalize_text (r ''stop_id'')
     in if normalized_trip_id = [] \<or> raw_stop_id = [] then Inr st
        else
          (case map_of tm normalized_trip_id of
             None \<Rightarrow> Inr (fst st, Suc (fst (snd st)), snd (snd st))
           | Some (route_id_value, direction_id_value) \<Rightarrow>
               (let station_stop_id =
                      (case map_of raw_stop_to_station raw_stop_id of
                         None \<Rightarrow> raw_stop_id
                       | Some sid \<Rightarrow> sid)
                in if station_stop_id \<notin> fst ` set sm
                   then Inr (fst st, fst (snd st), insert raw_stop_id (snd (snd st)))
                   else
                     (case parse_int_or_none (r ''stop_sequence'') of
                        Inl e \<Rightarrow> Inl e
                      | Inr next_sequence \<Rightarrow>
                          Inr (record_sequence (route_id_value, direction_id_value, station_stop_id)
                                 next_sequence (fst st),
                               fst (snd st), snd (snd st))))))"

subsection \<open>One dataset (source lines 149 to 346)\<close>

definition route_optional_columns :: "string list" where
  "route_optional_columns =
    [''agency_id'', ''route_short_name'', ''route_long_name'', ''route_desc'', ''route_type'',
     ''route_url'', ''route_color'', ''route_text_color'', ''route_sort_order'']"

definition process_dataset :: "mode \<Rightarrow> feed \<Rightarrow> pm_state \<Rightarrow> error + pm_state" where
  "process_dataset mode f s =
    (case require_columns (stops f) [''stop_id'', ''stop_name''] (dataset_dir f @ ''/stops.txt'') of
       Inl e \<Rightarrow> Inl e
     | Inr _ \<Rightarrow>
    (case require_columns (routes f) [''route_id''] (dataset_dir f @ ''/routes.txt'') of
       Inl e \<Rightarrow> Inl e
     | Inr _ \<Rightarrow>
    (case require_columns (trips f) [''trip_id'', ''route_id''] (dataset_dir f @ ''/trips.txt'') of
       Inl e \<Rightarrow> Inl e
     | Inr _ \<Rightarrow>
    (case require_columns (stop_times f) [''trip_id'', ''stop_id''] (dataset_dir f @ ''/stop_times.txt'') of
       Inl e \<Rightarrow> Inl e
     | Inr _ \<Rightarrow>
    (let stops_df = fold add_optional [''stop_lat'', ''stop_lon'', ''parent_station''] (stops f);
         routes_df = fold add_optional route_optional_columns (routes f);
         trips_df = add_optional ''direction_id'' (trips f);
         stop_times_df = add_optional ''stop_sequence'' (stop_times f);
         (sm, raw_stop_to_station) = fold (stops_row mode) (df_rows stops_df) (station_map s, [])
     in
       (case for_rows (routes_row mode) (df_rows routes_df) (route_map s) of
          Inl e \<Rightarrow> Inl e
        | Inr rm \<Rightarrow>
       (case for_rows trips_row (df_rows trips_df) [] of
          Inl e \<Rightarrow> Inl e
        | Inr tm \<Rightarrow>
       (case for_rows (stop_times_row tm raw_stop_to_station sm) (df_rows stop_times_df)
               (route_stop_map s, missing_trip_refs s, missing_stop_ids s) of
          Inl e \<Rightarrow> Inl e
        | Inr (rsm, refs, ids) \<Rightarrow>
            Inr \<lparr>station_map = sm, route_map = rm, route_stop_map = rsm,
                 missing_trip_refs = refs, missing_stop_ids = ids\<rparr>))))))))"

subsection \<open>Emission (source lines 348 to 419)\<close>

definition station_row_of :: "mode \<Rightarrow> station \<Rightarrow> station_row" where
  "station_row_of mode station =
    (let child_ids =
           (if mode = Bus then []
            else
              let sorted_ids = sorted_list_of_set (child_stop_ids station)
              in if sorted_ids = [] then [stop_id station] else sorted_ids)
     in \<lparr>row_stop_id = stop_id station,
         row_stop_name = or_text (stop_name station) (stop_id station),
         row_stop_lat = stop_lat station,
         row_stop_lon = stop_lon station,
         row_parent_station = parent_station station,
         child_stop_ids_json = child_ids\<rparr>)"

definition emit_stations_rows :: "mode \<Rightarrow> station_map \<Rightarrow> station_row list" where
  "emit_stations_rows mode sm = map (station_row_of mode) (sort_key stop_id (map snd sm))"

definition emit_routes_rows :: "route_map \<Rightarrow> route list" where
  "emit_routes_rows rm = sort_key route_id (map snd rm)"

definition route_stop_sort_key :: "route_stop_key \<times> int option \<Rightarrow> string \<times> int \<times> int \<times> string" where
  "route_stop_sort_key item =
    (case item of
       ((route, direction, stop), stop_sequence) \<Rightarrow>
         (let sequence = (case stop_sequence of Some n \<Rightarrow> n | None \<Rightarrow> 2 ^ 31 - 1)
          in (route, direction, sequence, stop)))"

definition route_stop_row_of :: "route_stop_key \<times> int option \<Rightarrow> route_stop_row" where
  "route_stop_row_of item =
    (case item of
       ((route, direction, stop), stop_sequence) \<Rightarrow>
         \<lparr>rs_route_id = route, rs_direction_id = direction, rs_stop_id = stop,
          route_stop_sort_order = stop_sequence\<rparr>)"

definition emit_route_stops_rows :: "route_stop_map \<Rightarrow> route_stop_row list" where
  "emit_route_stops_rows rsm = map route_stop_row_of (sort_key route_stop_sort_key rsm)"

definition initial_state :: pm_state where
  "initial_state =
    \<lparr>station_map = [], route_map = [], route_stop_map = [],
     missing_trip_refs = 0, missing_stop_ids = {}\<rparr>"

definition emit_result :: "mode \<Rightarrow> pm_state \<Rightarrow> pm_result" where
  "emit_result mode s =
    (let srows = emit_stations_rows mode (station_map s);
         rrows = emit_routes_rows (route_map s);
         rsrows = emit_route_stops_rows (route_stop_map s)
     in \<lparr>count_stations = length srows,
         count_routes = length rrows,
         count_routeStops = length rsrows,
         missingTripRefs = missing_trip_refs s,
         missingStopRefs = card (missing_stop_ids s),
         sampleMissingStopIds = take 50 (sorted_list_of_set (missing_stop_ids s)),
         result_missing_stop_ids = missing_stop_ids s,
         stations_rows = srows,
         routes_rows = rrows,
         route_stops_rows = rsrows\<rparr>)"

definition process_mode :: "mode \<Rightarrow> feed list \<Rightarrow> error + pm_result" where
  "process_mode mode dataset_dirs =
    (case for_rows (process_dataset mode) dataset_dirs initial_state of
       Inl e \<Rightarrow> Inl e
     | Inr s \<Rightarrow> Inr (emit_result mode s))"

section \<open>The sink and \<^verbatim>\<open>main\<close> (source lines 458 to 722)\<close>

text \<open>
  The statements that the importer sends to the database, each with the rows that
  \<^verbatim>\<open>execute_values\<close> binds. How the database runs a statement inside the open
  transaction is a parameter \<open>exec\<close>: it gives the new contents, or an error.
\<close>

datatype statement =
    Truncate_all
  | Insert_stations mode "station_row list"
  | Insert_routes mode "route list"
  | Insert_route_stops mode "route_stop_row list"
  | Upsert_bus_stations "station_row list"
  | Upsert_bus_routes "route list"
  | Upsert_bus_route_stops "route_stop_row list"

definition execute_values_if_rows ::
  "(statement \<Rightarrow> 'db \<Rightarrow> error + 'db) \<Rightarrow> ('r list \<Rightarrow> statement) \<Rightarrow> 'r list \<Rightarrow> 'db \<Rightarrow> error + 'db"
where
  "execute_values_if_rows exec query rows db = (if rows = [] then Inr db else exec (query rows) db)"

definition clear_mta_tables :: "(statement \<Rightarrow> 'db \<Rightarrow> error + 'db) \<Rightarrow> 'db \<Rightarrow> error + 'db" where
  "clear_mta_tables exec db = exec Truncate_all db"

definition insert_non_bus_mode ::
  "(statement \<Rightarrow> 'db \<Rightarrow> error + 'db) \<Rightarrow> mode \<Rightarrow> pm_result \<Rightarrow> 'db \<Rightarrow> error + 'db"
where
  "insert_non_bus_mode exec mode result db =
    (case execute_values_if_rows exec (Insert_stations mode) (stations_rows result) db of
       Inl e \<Rightarrow> Inl e
     | Inr db1 \<Rightarrow>
    (case execute_values_if_rows exec (Insert_routes mode) (routes_rows result) db1 of
       Inl e \<Rightarrow> Inl e
     | Inr db2 \<Rightarrow>
       execute_values_if_rows exec (Insert_route_stops mode) (route_stops_rows result) db2))"

definition upsert_bus_mode ::
  "(statement \<Rightarrow> 'db \<Rightarrow> error + 'db) \<Rightarrow> pm_result \<Rightarrow> 'db \<Rightarrow> error + 'db"
where
  "upsert_bus_mode exec result db =
    (case execute_values_if_rows exec Upsert_bus_stations (stations_rows result) db of
       Inl e \<Rightarrow> Inl e
     | Inr db1 \<Rightarrow>
    (case execute_values_if_rows exec Upsert_bus_routes (routes_rows result) db1 of
       Inl e \<Rightarrow> Inl e
     | Inr db2 \<Rightarrow>
       execute_values_if_rows exec Upsert_bus_route_stops (route_stops_rows result) db2))"

text \<open>
  The datasets that \<^verbatim>\<open>main\<close> resolved from the source directory, and its report: for
  each mode (in the order of the two dictionaries) the counts (stations, routes, route
  stops) and the warnings (missing trip references, missing stop references, sample of
  missing stop ids).
\<close>

record datasets =
  subway_dir :: feed
  lirr_dir :: feed
  mnr_dir :: feed
  bus_dirs :: "feed list"

record report =
  busDatasets :: nat
  counts :: "(mode \<times> nat \<times> nat \<times> nat) list"
  warnings :: "(mode \<times> nat \<times> nat \<times> string list) list"

record bus_totals =
  bus_station_ids :: "string set"
  bus_route_ids :: "string set"
  bus_route_stop_keys :: "route_stop_key set"
  bus_missing_stop_ids :: "string set"
  bus_missing_trip_refs :: nat

definition counts_of :: "pm_result \<Rightarrow> nat \<times> nat \<times> nat" where
  "counts_of result = (count_stations result, count_routes result, count_routeStops result)"

definition warnings_of :: "pm_result \<Rightarrow> nat \<times> nat \<times> string list" where
  "warnings_of result = (missingTripRefs result, missingStopRefs result, sampleMissingStopIds result)"

text \<open>Lines 680 to 694: one bus dataset, parsed, upserted and added to the totals.\<close>

definition bus_dataset ::
  "(statement \<Rightarrow> 'db \<Rightarrow> error + 'db) \<Rightarrow> feed \<Rightarrow> 'db \<times> bus_totals \<Rightarrow> error + 'db \<times> bus_totals"
where
  "bus_dataset exec bus_dir st =
    (case process_mode Bus [bus_dir] of
       Inl e \<Rightarrow> Inl e
     | Inr bus \<Rightarrow>
    (case upsert_bus_mode exec bus (fst st) of
       Inl e \<Rightarrow> Inl e
     | Inr db \<Rightarrow>
         Inr (db,
              \<lparr>bus_station_ids = bus_station_ids (snd st) \<union> row_stop_id ` set (stations_rows bus),
               bus_route_ids = bus_route_ids (snd st) \<union> route_id ` set (routes_rows bus),
               bus_route_stop_keys =
                 bus_route_stop_keys (snd st)
                   \<union> (\<lambda>row. (rs_route_id row, rs_direction_id row, rs_stop_id row))
                       ` set (route_stops_rows bus),
               bus_missing_stop_ids = bus_missing_stop_ids (snd st) \<union> result_missing_stop_ids bus,
               bus_missing_trip_refs = bus_missing_trip_refs (snd st) + missingTripRefs bus\<rparr>)))"

text \<open>Lines 650 to 710: the block inside \<^verbatim>\<open>with conn\<close>, on the contents \<open>db\<close> it starts from.\<close>

definition import_all ::
  "(statement \<Rightarrow> 'db \<Rightarrow> error + 'db) \<Rightarrow> datasets \<Rightarrow> 'db \<Rightarrow> error + 'db \<times> report"
where
  "import_all exec ds db =
    (case clear_mta_tables exec db of
       Inl e \<Rightarrow> Inl e
     | Inr db0 \<Rightarrow>
    (case process_mode Subway [subway_dir ds] of
       Inl e \<Rightarrow> Inl e
     | Inr subway \<Rightarrow>
    (case insert_non_bus_mode exec Subway subway db0 of
       Inl e \<Rightarrow> Inl e
     | Inr db1 \<Rightarrow>
    (case process_mode Lirr [lirr_dir ds] of
       Inl e \<Rightarrow> Inl e
     | Inr lirr \<Rightarrow>
    (case insert_non_bus_mode exec Lirr lirr db1 of
       Inl e \<Rightarrow> Inl e
     | Inr db2 \<Rightarrow>
    (case process_mode Mnr [mnr_dir ds] of
       Inl e \<Rightarrow> Inl e
     | Inr mnr \<Rightarrow>
    (case insert_non_bus_mode exec Mnr mnr db2 of
       Inl e \<Rightarrow> Inl e
     | Inr db3 \<Rightarrow>
    (case for_rows (bus_dataset exec) (bus_dirs ds)
            (db3,
             \<lparr>bus_station_ids = {}, bus_route_ids = {}, bus_route_stop_keys = {},
              bus_missing_stop_ids = {}, bus_missing_trip_refs = 0\<rparr>) of
       Inl e \<Rightarrow> Inl e
     | Inr (db4, bus) \<Rightarrow>
         Inr (db4,
              \<lparr>busDatasets = length (bus_dirs ds),
               counts =
                 [(Subway, counts_of subway),
                  (Bus,
                   (card (bus_station_ids bus), card (bus_route_ids bus),
                    card (bus_route_stop_keys bus))),
                  (Lirr, counts_of lirr),
                  (Mnr, counts_of mnr)],
               warnings =
                 [(Subway, warnings_of subway),
                  (Bus,
                   (bus_missing_trip_refs bus, card (bus_missing_stop_ids bus),
                    take 50 (sorted_list_of_set (bus_missing_stop_ids bus)))),
                  (Lirr, warnings_of lirr),
                  (Mnr, warnings_of mnr)]\<rparr>)))))))))"

text \<open>
  \<^verbatim>\<open>with conn\<close> on a psycopg2 connection whose \<^verbatim>\<open>autocommit\<close> is off: the statements of the
  block run in one transaction, which is committed when the block ends and rolled back
  when it raises. The first component of the result is the committed contents afterwards.
\<close>

definition with_conn :: "('db \<Rightarrow> error + 'db \<times> 'a) \<Rightarrow> 'db \<Rightarrow> 'db \<times> (error + 'a)" where
  "with_conn block committed =
    (case block committed of
       Inl e \<Rightarrow> (committed, Inl e)
     | Inr (db, x) \<Rightarrow> (db, Inr x))"

text \<open>
  \<^verbatim>\<open>main\<close>, from line 623 on, with the dataset directories resolved and loaded, and with
  the committed contents of the database as its state: no bus dataset is an error before
  the connection is opened.
\<close>

definition main :: "(statement \<Rightarrow> 'db \<Rightarrow> error + 'db) \<Rightarrow> datasets \<Rightarrow> 'db \<Rightarrow> 'db \<times> (error + report)" where
  "main exec ds committed =
    (if bus_dirs ds = [] then (committed, Inl (RuntimeError ''Missing GTFS dataset for mode bus'' []))
     else with_conn (import_all exec ds) committed)"

section \<open>The order of the emitted assignment rows\<close>

text \<open>
  The sort key of line 387 read off an emitted row: an absent sequence counts as
  \<open>2 ^ 31 - 1\<close>.
\<close>

definition seq_or_sentinel :: "route_stop_row \<Rightarrow> int" where
  "seq_or_sentinel row = (case route_stop_sort_order row of Some n \<Rightarrow> n | None \<Rightarrow> 2 ^ 31 - 1)"

definition row_sort_key :: "route_stop_row \<Rightarrow> string \<times> int \<times> int \<times> string" where
  "row_sort_key row = (rs_route_id row, rs_direction_id row, seq_or_sentinel row, rs_stop_id row)"

text \<open>
  The order of the specification, for comparison: an absent sequence is above every
  integer (the first component tells absent from present, and \<open>False < True\<close>).
\<close>

definition seq_or_infinity :: "route_stop_row \<Rightarrow> bool \<times> int" where
  "seq_or_infinity row = (case route_stop_sort_order row of Some n \<Rightarrow> (False, n) | None \<Rightarrow> (True, 0))"

definition spec_row_sort_key :: "route_stop_row \<Rightarrow> string \<times> int \<times> (bool \<times> int) \<times> string" where
  "spec_row_sort_key row = (rs_route_id row, rs_direction_id row, seq_or_infinity row, rs_stop_id row)"

section \<open>The invariant of a processing pass\<close>

text \<open>
  The keys of the assignment map are distinct, the station of every key is a key of the
  station map, and every station is stored under its own id.
\<close>

definition state_ok :: "pm_state \<Rightarrow> bool" where
  "state_ok s \<longleftrightarrow>
    distinct (map fst (route_stop_map s))
    \<and> (\<forall>k \<in> fst ` set (route_stop_map s). snd (snd k) \<in> fst ` set (station_map s))
    \<and> (\<forall>(k, st) \<in> set (station_map s). stop_id st = k)"

section \<open>Example inputs\<close>

text \<open>A row given by the cells it has; every other column is missing.\<close>

definition row_of :: "(string \<times> pyval) list \<Rightarrow> row" where
  "row_of cells = (\<lambda>c. case map_of cells c of None \<Rightarrow> PNaN | Some v \<Rightarrow> v)"

definition tram_row :: row where
  "tram_row =
    row_of [(''route_id'', PStr ''T1''), (''route_type'', PStr ''0''), (''route_sort_order'', PStr ''0'')]"

definition route_full :: route where
  "route_full =
    \<lparr>route_id = ''A1'', agency_id = Some ''MTA'', route_short_name = ''A'',
     route_long_name = ''8 Avenue Express'', route_desc = Some ''Express'', route_type = 1,
     route_url = Some ''http://a'', route_color = Some ''0039A6'', route_text_color = Some ''FFFFFF'',
     route_sort_order = Some 0\<rparr>"

definition route_other :: route where
  "route_other =
    \<lparr>route_id = ''A1'', agency_id = Some ''NYCT'', route_short_name = ''A1'',
     route_long_name = ''Other'', route_desc = Some ''Local'', route_type = 0,
     route_url = Some ''http://b'', route_color = Some ''FF0000'', route_text_color = Some ''000000'',
     route_sort_order = Some 7\<rparr>"

text \<open>A stop-time row of an unknown trip whose stop id is missing.\<close>

definition blank_stop_time_row :: row where
  "blank_stop_time_row =
    row_of [(''trip_id'', PStr ''T9''), (''stop_id'', PNaN), (''stop_sequence'', PStr ''1'')]"

text \<open>
  A small subway feed: two platforms of station 101 and a stop 102 of its own; one route;
  two trips; stop times with two sequences for station 101, a missing sequence, an
  unknown trip and an unknown stop.
\<close>

definition example_feed :: feed where
  "example_feed =
    \<lparr>dataset_dir = ''mta/subway'',
     stops =
       \<lparr>df_columns = [''stop_id'', ''stop_name'', ''parent_station''],
        df_rows =
          [row_of [(''stop_id'', PStr ''101N''), (''stop_name'', PStr ''Times Sq''),
                   (''parent_station'', PStr ''101'')],
           row_of [(''stop_id'', PStr ''101S''), (''parent_station'', PStr ''101'')],
           row_of [(''stop_id'', PStr ''102''), (''stop_name'', PStr ''Penn'')]]\<rparr>,
     routes =
       \<lparr>df_columns = [''route_id''],
        df_rows = [row_of [(''route_id'', PStr ''a'')]]\<rparr>,
     trips =
       \<lparr>df_columns = [''trip_id'', ''route_id'', ''direction_id''],
        df_rows =
          [row_of [(''trip_id'', PStr ''T1''), (''route_id'', PStr ''A''), (''direction_id'', PStr ''N'')],
           row_of [(''trip_id'', PStr ''T2''), (''route_id'', PStr ''A''), (''direction_id'', PStr ''S'')]]\<rparr>,
     stop_times =
       \<lparr>df_columns = [''trip_id'', ''stop_id'', ''stop_sequence''],
        df_rows =
          [row_of [(''trip_id'', PStr ''T1''), (''stop_id'', PStr ''101N''), (''stop_sequence'', PStr ''3'')],
           row_of [(''trip_id'', PStr ''T1''), (''stop_id'', PStr ''101S''), (''stop_sequence'', PStr ''1'')],
           row_of [(''trip_id'', PStr ''T1''), (''stop_id'', PStr ''102'')],
           row_of [(''trip_id'', PStr ''T2''), (''stop_id'', PStr ''102''), (''stop_sequence'', PStr ''2'')],
           row_of [(''trip_id'', PStr ''T9''), (''stop_id'', PStr ''102''), (''stop_sequence'', PStr ''1'')],
           row_of [(''trip_id'', PStr ''T1''), (''stop_id'', PStr ''999''), (''stop_sequence'', PStr ''1'')]]\<rparr>\<rparr>"

text \<open>
  The same feed with other stop times: stop 102 at sequence 3000000000 and station 101
  without a sequence.
\<close>

definition big_sequence_feed :: feed where
  "big_sequence_feed =
    example_feed
    \<lparr>stop_times :=
       \<lparr>df_columns = [''trip_id'', ''stop_id'', ''stop_sequence''],
        df_rows =
          [row_of [(''trip_id'', PStr ''T1''), (''stop_id'', PStr ''102''),
                   (''stop_sequence'', PStr ''3000000000'')],
           row_of [(''trip_id'', PStr ''T1''), (''stop_id'', PStr ''101N'')]]\<rparr>\<rparr>"

text \<open>The results of \<^verbatim>\<open>process_mode\<close> in subway mode on these two feeds.\<close>

definition example_result :: pm_result where
  "example_result =
    \<lparr>count_stations = 2, count_routes = 1, count_routeStops = 3,
     missingTripRefs = 1, missingStopRefs = 1,
     sampleMissingStopIds = [''999''],
     result_missing_stop_ids = {''999''},
     stations_rows =
       [\<lparr>row_stop_id = ''101'', row_stop_name = ''Times Sq'', row_stop_lat = None,
         row_stop_lon = None, row_parent_station = Some ''101'',
         child_stop_ids_json = [''101N'', ''101S'']\<rparr>,
        \<lparr>row_stop_id = ''102'', row_stop_name = ''Penn'', row_stop_lat = None,
         row_stop_lon = None, row_parent_station = None, child_stop_ids_json = [''102'']\<rparr>],
     routes_rows =
       [\<lparr>route_id = ''A'', agency_id = None, route_short_name = [], route_long_name = [],
         route_desc = None, route_type = 1, route_url = None, route_color = None,
         route_text_color = None, route_sort_order = None\<rparr>],
     route_stops_rows =
       [\<lparr>rs_route_id = ''A'', rs_direction_id = 0, rs_stop_id = ''101'',
         route_stop_sort_order = Some 1\<rparr>,
        \<lparr>rs_route_id = ''A'', rs_direction_id = 0, rs_stop_id = ''102'',
         route_stop_sort_order = None\<rparr>,
        \<lparr>rs_route_id = ''A'', rs_direction_id = 1, rs_stop_id = ''102'',
         route_stop_sort_order = Some 2\<rparr>]\<rparr>"

definition big_sequence_result :: pm_result where
  "big_sequence_result =
    example_result
    \<lparr>count_routeStops := 2, missingTripRefs := 0, missingStopRefs := 0,
     sampleMissingStopIds := [], result_missing_stop_ids := {},
     route_stops_rows :=
       [\<lparr>rs_route_id = ''A'', rs_direction_id = 0, rs_stop_id = ''101'',
         route_stop_sort_order = None\<rparr>,
        \<lparr>rs_route_id = ''A'', rs_direction_id = 0, rs_stop_id = ''102'',
         route_stop_sort_order = Some 3000000000\<rparr>]\<rparr>"

text \<open>
  A database that keeps the statements it ran and rejects the station rows of the second
  mode; a run on the example feed for every mode.
\<close>

definition failing_sink :: "statement \<Rightarrow> statement list \<Rightarrow> error + statement list" where
  "failing_sink q db = (case q of Insert_stations Lirr rows \<Rightarrow> Inl DatabaseError | _ \<Rightarrow> Inr (db @ [q]))"

definition example_datasets :: datasets where
  "example_datasets =
    \<lparr>subway_dir = example_feed, lirr_dir = example_feed, mnr_dir = example_feed,
     bus_dirs = [example_feed]\<rparr>"

text \<open>Single rows of the example feed, and a trip table with the one trip \<^verbatim>\<open>T1\<close>.\<close>

definition stop_row_101N :: row where
  "stop_row_101N =
    row_of [(''stop_id'', PStr ''101N''), (''stop_name'', PStr ''Times Sq''),
            (''parent_station'', PStr ''101'')]"

definition unknown_trip_row :: row where
  "unknown_trip_row =
    row_of [(''trip_id'', PStr ''T9''), (''stop_id'', PStr ''102''), (''stop_sequence'', PStr ''1'')]"

definition unknown_stop_row :: row where
  "unknown_stop_row =
    row_of [(''trip_id'', PStr ''T1''), (''stop_id'', PStr ''999''), (''stop_sequence'', PStr ''1'')]"

definition example_trip_map :: trip_map where
  "example_trip_map = [(''T1'', (''A'', 0))]"

definition example_key :: route_stop_key where
  "example_key = (''A'', 0, ''101'')"

text \<open>
  A database that runs every statement, and datasets without rows: the required columns
  are there, so every mode parses to empty row lists.
\<close>

definition logging_sink :: "statement \<Rightarrow> statement list \<Rightarrow> error + statement list" where
  "logging_sink q db = Inr (db @ [q])"

definition empty_feed :: feed where
  "empty_feed =
    \<lparr>dataset_dir = ''mta/empty'',
     stops = \<lparr>df_columns = [''stop_id'', ''stop_name''], df_rows = []\<rparr>,
     routes = \<lparr>df_columns = [''route_id''], df_rows = []\<rparr>,
     trips = \<lparr>df_columns = [''trip_id'', ''route_id''], df_rows = []\<rparr>,
     stop_times = \<lparr>df_columns = [''trip_id'', ''stop_id''], df_rows = []\<rparr>\<rparr>"

definition empty_datasets :: datasets where
  "empty_datasets =
    \<lparr>subway_dir = empty_feed, lirr_dir = empty_feed, mnr_dir = empty_feed,
     bus_dirs = [empty_feed]\<rparr>"

definition empty_report :: report where
  "empty_report =
    \<lparr>busDatasets = 1,
     counts = [(Subway, (0, 0, 0)), (Bus, (0, 0, 0)), (Lirr, (0, 0, 0)), (Mnr, (0, 0, 0))],
     warnings = [(Subway, (0, 0, [])), (Bus, (0, 0, [])), (Lirr, (0, 0, [])), (Mnr, (0, 0, []))]\<rparr>"

section \<open>Properties\<close>

subsection \<open>Loops and association lists\<close>

lemma set_update_subset: "set (AList.update k v al) \<subseteq> insert (k, v) (set al)"
  by (induction al) auto

lemma for_rows_invariant:
  assumes "for_rows body rows s = Inr s'"
    and "P s"
    and "\<And>r t t'. P t \<Longrightarrow> body r t = Inr t' \<Longrightarrow> P t'"
  shows "P s'"
  using assms(1,2)
proof (induction rows arbitrary: s)
  case Nil
  then show ?case by simp
next
  case (Cons r rows)
  then obtain t where "body r s = Inr t" and "for_rows body rows t = Inr s'"
    by (auto split: sum.splits)
  with Cons.IH Cons.prems(2) assms(3) show ?case by blast
qed

lemma fold_invariant:
  assumes "P s" and "\<And>r t. P t \<Longrightarrow> P (f r t)"
  shows "P (fold f rows s)"
  using assms(1) by (induction rows arbitrary: s) (auto intro: assms(2))

subsection \<open>Station clustering\<close>

lemma stops_row_blank: "normalize_text (r ''stop_id'') = [] \<Longrightarrow> stops_row mode r st = st"
  by (simp add: stops_row_def)

lemma stops_row_processed:
  "normalize_text (r ''stop_id'') \<noteq> [] \<Longrightarrow>
    stops_row mode r st =
      (AList.update (station_id_of mode r)
         (add_child mode (normalize_text (r ''stop_id''))
            (case map_of (fst st) (station_id_of mode r) of
               None \<Rightarrow> new_station (station_id_of mode r) r
             | Some existing \<Rightarrow> fill_station r existing))
         (fst st),
       AList.update (normalize_text (r ''stop_id'')) (station_id_of mode r) (snd st))"
  by (simp add: stops_row_def Let_def)

lemma stop_id_station [simp]:
  "stop_id (new_station sid r) = sid"
  "stop_id (fill_station r e) = stop_id e"
  "stop_id (add_child mode raw e) = stop_id e"
  by (simp_all add: new_station_def fill_station_def add_child_def Let_def)

lemma child_stop_ids_station [simp]:
  "child_stop_ids (new_station sid r) = {}"
  "child_stop_ids (fill_station r e) = child_stop_ids e"
  "child_stop_ids (add_child mode raw e) = (if mode = Bus then child_stop_ids e else insert raw (child_stop_ids e))"
  by (simp_all add: new_station_def fill_station_def add_child_def Let_def)

lemma stops_row_keys:
  "fst ` set (fst st) \<subseteq> fst ` set (fst (stops_row mode r st))"
  by (cases "normalize_text (r ''stop_id'') = []")
    (auto simp: stops_row_blank stops_row_processed AList.dom_update)

lemma stops_row_stop_id:
  assumes "\<forall>(k, s) \<in> set (fst st). stop_id s = k"
  shows "\<forall>(k, s) \<in> set (fst (stops_row mode r st)). stop_id s = k"
proof (cases "normalize_text (r ''stop_id'') = []")
  case True
  with assms show ?thesis by (simp add: stops_row_blank)
next
  case False
  let ?sid = "station_id_of mode r"
  let ?station = "add_child mode (normalize_text (r ''stop_id''))
            (case map_of (fst st) ?sid of
               None \<Rightarrow> new_station ?sid r
             | Some existing \<Rightarrow> fill_station r existing)"
  have upd: "fst (stops_row mode r st) = AList.update ?sid ?station (fst st)"
    using False by (simp add: stops_row_processed)
  have "stop_id ?station = ?sid"
  proof (cases "map_of (fst st) ?sid")
    case None
    then show ?thesis by simp
  next
    case (Some e)
    then have "(?sid, e) \<in> set (fst st)" by (rule map_of_SomeD)
    with assms have "stop_id e = ?sid" by auto
    with Some show ?thesis by simp
  qed
  then show ?thesis
    unfolding upd using set_update_subset [of ?sid ?station "fst st"] assms by auto
qed

lemma stops_loop_keys:
  "fst ` set (fst st) \<subseteq> fst ` set (fst (fold (stops_row mode) rows st))"
proof (induction rows arbitrary: st)
  case Nil
  show ?case by simp
next
  case (Cons r rows)
  have "fst ` set (fst st) \<subseteq> fst ` set (fst (stops_row mode r st))"
    by (rule stops_row_keys)
  also have "\<dots> \<subseteq> fst ` set (fst (fold (stops_row mode) rows (stops_row mode r st)))"
    by (rule Cons.IH)
  finally show ?case by simp
qed

lemma stops_loop_stop_id:
  "\<forall>(k, s) \<in> set (fst st). stop_id s = k
    \<Longrightarrow> \<forall>(k, s) \<in> set (fst (fold (stops_row mode) rows st)). stop_id s = k"
  by (rule fold_invariant) (auto dest: stops_row_stop_id)

lemma station_id_of_non_bus:
  "mode \<noteq> Bus \<Longrightarrow> normalize_text (r ''parent_station'') \<noteq> []
    \<Longrightarrow> station_id_of mode r = normalize_text (r ''parent_station'')"
  by (simp add: station_id_of_def or_text_def)

lemma station_id_of_bus: "station_id_of Bus r = normalize_text (r ''stop_id'')"
  by (simp add: station_id_of_def)

lemma stops_row_lookup:
  "normalize_text (r ''stop_id'') \<noteq> []
    \<Longrightarrow> map_of (snd (stops_row mode r st)) (normalize_text (r ''stop_id'')) = Some (station_id_of mode r)"
  by (simp add: stops_row_processed AList.update_conv')

lemma stops_row_child:
  assumes "normalize_text (r ''stop_id'') \<noteq> []" and "mode \<noteq> Bus"
  shows "\<exists>station. map_of (fst (stops_row mode r st)) (station_id_of mode r) = Some station
      \<and> normalize_text (r ''stop_id'') \<in> child_stop_ids station"
  using assms by (simp add: stops_row_processed AList.update_conv')

lemma stops_row_child_kept:
  assumes "map_of (fst st) sid = Some station" and "x \<in> child_stop_ids station"
  shows "\<exists>station'. map_of (fst (stops_row mode r st)) sid = Some station'
      \<and> x \<in> child_stop_ids station'"
proof (cases "normalize_text (r ''stop_id'') = []")
  case True
  with assms show ?thesis by (simp add: stops_row_blank)
next
  case False
  show ?thesis
  proof (cases "station_id_of mode r = sid")
    case True
    with False assms show ?thesis
      by (simp add: stops_row_processed AList.update_conv')
  next
    case other: False
    with False assms show ?thesis
      by (simp add: stops_row_processed AList.update_conv')
  qed
qed

lemma stops_loop_child_kept:
  "map_of (fst st) sid = Some station \<Longrightarrow> x \<in> child_stop_ids station
    \<Longrightarrow> \<exists>station'. map_of (fst (fold (stops_row mode) rows st)) sid = Some station'
      \<and> x \<in> child_stop_ids station'"
proof (induction rows arbitrary: st station)
  case Nil
  then show ?case by simp
next
  case (Cons r rows)
  from stops_row_child_kept [OF Cons.prems] obtain station1
    where "map_of (fst (stops_row mode r st)) sid = Some station1" "x \<in> child_stop_ids station1"
    by blast
  from Cons.IH [OF this] show ?case by simp
qed

lemma stops_loop_child:
  assumes "r \<in> set rows" and "normalize_text (r ''stop_id'') \<noteq> []" and "mode \<noteq> Bus"
  shows "\<exists>station. map_of (fst (fold (stops_row mode) rows st)) (station_id_of mode r) = Some station
      \<and> normalize_text (r ''stop_id'') \<in> child_stop_ids station"
proof -
  from assms(1) obtain pre post where rows: "rows = pre @ r # post"
    by (auto dest: split_list)
  let ?st = "fold (stops_row mode) pre st"
  from stops_row_child [of r mode ?st] assms(2,3) obtain station
    where "map_of (fst (stops_row mode r ?st)) (station_id_of mode r) = Some station"
      "normalize_text (r ''stop_id'') \<in> child_stop_ids station"
    by blast
  from stops_loop_child_kept [OF this, of mode post] show ?thesis
    by (simp add: rows)
qed

lemma bus_rows_no_children:
  "\<forall>row \<in> set (emit_stations_rows Bus sm). child_stop_ids_json row = []"
  by (auto simp: emit_stations_rows_def station_row_of_def)

text \<open>
  C1. A stop row that is processed (its stop id is not blank, so the loop does not skip
  it): in a mode other than bus and with a parent station that is not blank, the station
  id chosen for the row is the normalized parent, the lookup of the dataset maps the raw
  stop id to it, and the station stored under it has the raw stop id among its children,
  right after the row and still at the end of the loop; in bus mode the station id is the
  raw stop id, and every emitted station row has an empty list of children.
\<close>

theorem stop_row_canonical_station:
  assumes "r \<in> set rows" and "normalize_text (r ''stop_id'') \<noteq> []"
  shows "(mode \<noteq> Bus \<and> normalize_text (r ''parent_station'') \<noteq> [] \<longrightarrow>
            station_id_of mode r = normalize_text (r ''parent_station'')
          \<and> map_of (snd (stops_row mode r st)) (normalize_text (r ''stop_id''))
              = Some (normalize_text (r ''parent_station''))
          \<and> (\<exists>station. map_of (fst (stops_row mode r st)) (normalize_text (r ''parent_station''))
                  = Some station
                \<and> normalize_text (r ''stop_id'') \<in> child_stop_ids station)
          \<and> (\<exists>station. map_of (fst (fold (stops_row mode) rows st0)) (normalize_text (r ''parent_station''))
                  = Some station
                \<and> normalize_text (r ''stop_id'') \<in> child_stop_ids station))
      \<and> (mode = Bus \<longrightarrow>
            station_id_of mode r = normalize_text (r ''stop_id'')
          \<and> map_of (snd (stops_row mode r st)) (normalize_text (r ''stop_id''))
              = Some (normalize_text (r ''stop_id''))
          \<and> normalize_text (r ''stop_id'') \<in> fst ` set (fst (stops_row mode r st))
          \<and> (\<forall>row \<in> set (emit_stations_rows mode sm). child_stop_ids_json row = []))"
proof (intro conjI impI)
  assume nb: "mode \<noteq> Bus \<and> normalize_text (r ''parent_station'') \<noteq> []"
  then have sid: "station_id_of mode r = normalize_text (r ''parent_station'')"
    by (simp add: station_id_of_non_bus)
  show "station_id_of mode r = normalize_text (r ''parent_station'')" by (rule sid)
  show "map_of (snd (stops_row mode r st)) (normalize_text (r ''stop_id''))
      = Some (normalize_text (r ''parent_station''))"
    using stops_row_lookup [of r mode st] assms(2) sid by simp
  show "\<exists>station. map_of (fst (stops_row mode r st)) (normalize_text (r ''parent_station''))
        = Some station \<and> normalize_text (r ''stop_id'') \<in> child_stop_ids station"
    using stops_row_child [of r mode st] assms(2) nb sid by simp
  show "\<exists>station. map_of (fst (fold (stops_row mode) rows st0)) (normalize_text (r ''parent_station''))
        = Some station \<and> normalize_text (r ''stop_id'') \<in> child_stop_ids station"
    using stops_loop_child [of r rows mode st0] assms nb sid by simp
next
  assume bus: "mode = Bus"
  show "station_id_of mode r = normalize_text (r ''stop_id'')"
    by (simp add: bus station_id_of_bus)
  show "map_of (snd (stops_row mode r st)) (normalize_text (r ''stop_id''))
      = Some (normalize_text (r ''stop_id''))"
    using stops_row_lookup [of r mode st] assms(2) by (simp add: bus station_id_of_bus)
  show "normalize_text (r ''stop_id'') \<in> fst ` set (fst (stops_row mode r st))"
    using assms(2) by (simp add: stops_row_processed AList.dom_update bus station_id_of_bus)
  show "\<forall>row \<in> set (emit_stations_rows mode sm). child_stop_ids_json row = []"
    unfolding bus by (rule bus_rows_no_children)
qed

theorem stop_row_canonical_station_witness:
  "map_of (snd (stops_row Subway stop_row_101N ([], []))) ''101N'' = Some ''101''
   \<and> (\<exists>station. map_of (fst (stops_row Subway stop_row_101N ([], []))) ''101'' = Some station
          \<and> ''101N'' \<in> child_stop_ids station)
   \<and> (\<exists>station. map_of (fst (fold (stops_row Subway) (df_rows (stops example_feed)) ([], []))) ''101''
            = Some station
          \<and> ''101N'' \<in> child_stop_ids station)
   \<and> map_of (snd (stops_row Bus stop_row_101N ([], []))) ''101N'' = Some ''101N''
   \<and> ''101N'' \<in> fst ` set (fst (stops_row Bus stop_row_101N ([], [])))
   \<and> map child_stop_ids_json (emit_stations_rows Bus (fst (stops_row Bus stop_row_101N ([], [])))) = [[]]"
proof -
  have member: "stop_row_101N \<in> set (df_rows (stops example_feed))"
    by (simp add: example_feed_def stop_row_101N_def)
  have raw: "normalize_text (stop_row_101N ''stop_id'') = ''101N''"
    by code_simp
  have parent: "normalize_text (stop_row_101N ''parent_station'') = ''101''"
    by code_simp
  have emitted: "map child_stop_ids_json
      (emit_stations_rows Bus (fst (stops_row Bus stop_row_101N ([], [])))) = [[]]"
    by code_simp
  from stop_row_canonical_station
    [where r = stop_row_101N and rows = "df_rows (stops example_feed)" and mode = Subway
       and st = "([], [])" and ?st0.0 = "([], [])"]
    member raw parent
  have subway:
    "map_of (snd (stops_row Subway stop_row_101N ([], []))) ''101N'' = Some ''101''
     \<and> (\<exists>station. map_of (fst (stops_row Subway stop_row_101N ([], []))) ''101'' = Some station
          \<and> ''101N'' \<in> child_stop_ids station)
     \<and> (\<exists>station. map_of (fst (fold (stops_row Subway) (df_rows (stops example_feed)) ([], []))) ''101''
            = Some station
          \<and> ''101N'' \<in> child_stop_ids station)"
    by simp
  from stop_row_canonical_station
    [where r = stop_row_101N and rows = "df_rows (stops example_feed)" and mode = Bus
       and st = "([], [])"]
    member raw
  have bus:
    "map_of (snd (stops_row Bus stop_row_101N ([], []))) ''101N'' = Some ''101N''
     \<and> ''101N'' \<in> fst ` set (fst (stops_row Bus stop_row_101N ([], [])))"
    by simp
  from subway bus emitted show ?thesis
    by simp
qed

subsection \<open>Route merge\<close>

lemma truthy_iff: "truthy v \<longleftrightarrow> v \<noteq> None \<and> v \<noteq> Some []"
  by (cases v) (simp_all add: truthy_def)

text \<open>
  C2. When an incoming route row meets an existing record of the same route id, a field
  of the existing record that is populated (agency, short name, long name, description,
  url, color and text color not empty; sort order not absent) keeps its value, and the
  route type becomes the incoming type exactly when the existing type is the default of
  the mode and the incoming type is not.
\<close>

theorem route_merge_keeps_populated_fields:
  "(agency_id existing \<noteq> None \<and> agency_id existing \<noteq> Some []
      \<longrightarrow> agency_id (merge_route mode existing incoming) = agency_id existing)
   \<and> (route_short_name existing \<noteq> []
      \<longrightarrow> route_short_name (merge_route mode existing incoming) = route_short_name existing)
   \<and> (route_long_name existing \<noteq> []
      \<longrightarrow> route_long_name (merge_route mode existing incoming) = route_long_name existing)
   \<and> (route_desc existing \<noteq> None \<and> route_desc existing \<noteq> Some []
      \<longrightarrow> route_desc (merge_route mode existing incoming) = route_desc existing)
   \<and> (route_url existing \<noteq> None \<and> route_url existing \<noteq> Some []
      \<longrightarrow> route_url (merge_route mode existing incoming) = route_url existing)
   \<and> (route_color existing \<noteq> None \<and> route_color existing \<noteq> Some []
      \<longrightarrow> route_color (merge_route mode existing incoming) = route_color existing)
   \<and> (route_text_color existing \<noteq> None \<and> route_text_color existing \<noteq> Some []
      \<longrightarrow> route_text_color (merge_route mode existing incoming) = route_text_color existing)
   \<and> (route_sort_order existing \<noteq> None
      \<longrightarrow> route_sort_order (merge_route mode existing incoming) = route_sort_order existing)
   \<and> route_type (merge_route mode existing incoming) =
       (if route_type existing = MODE_DEFAULT_ROUTE_TYPE mode
           \<and> route_type incoming \<noteq> MODE_DEFAULT_ROUTE_TYPE mode
        then route_type incoming else route_type existing)"
  by (simp add: merge_route_def truthy_iff)

theorem route_merge_keeps_populated_fields_witness:
  "agency_id (merge_route Subway route_full route_other) = Some ''MTA''
   \<and> route_short_name (merge_route Subway route_full route_other) = ''A''
   \<and> route_long_name (merge_route Subway route_full route_other) = ''8 Avenue Express''
   \<and> route_desc (merge_route Subway route_full route_other) = Some ''Express''
   \<and> route_url (merge_route Subway route_full route_other) = Some ''http://a''
   \<and> route_color (merge_route Subway route_full route_other) = Some ''0039A6''
   \<and> route_text_color (merge_route Subway route_full route_other) = Some ''FFFFFF''
   \<and> route_sort_order (merge_route Subway route_full route_other) = Some 0
   \<and> route_type (merge_route Subway route_full route_other) = 0"
  using route_merge_keeps_populated_fields [of route_full Subway route_other]
  by (simp add: route_full_def route_other_def MODE_DEFAULT_ROUTE_TYPE_def)

subsection \<open>Row normalizers\<close>

text \<open>
  Integer parsing raises exactly on the texts that \<^verbatim>\<open>float\<close> reads as an infinity (such as
  \<^verbatim>\<open>inf\<close>, \<^verbatim>\<open>-Infinity\<close> or \<^verbatim>\<open>1e999\<close>); everywhere else it returns. Direction parsing raises
  exactly when it hands such a text to integer parsing; when it returns, the result is 0
  or 1.
\<close>

lemma parse_int_or_none_raises_iff:
  "parse_int_or_none v = Inl e \<longleftrightarrow>
    e = OverflowError \<and> normalize_text v \<noteq> []
    \<and> (py_float (normalize_text v) = Some Inf \<or> py_float (normalize_text v) = Some NegInf)"
  by (auto simp: parse_int_or_none_def Let_def py_int_of_float_def
      split: option.splits pyfloat.splits int_of_float.splits)

lemma parse_direction_id_range:
  "parse_direction_id v = Inr d \<Longrightarrow> d = 0 \<or> d = 1"
  by (auto simp: parse_direction_id_def Let_def split: if_splits sum.splits)

lemma parse_direction_id_letters:
  "py_upper (normalize_text v) = [] \<Longrightarrow> parse_direction_id v = Inr 0"
  "py_upper (normalize_text v) = ''N'' \<Longrightarrow> parse_direction_id v = Inr 0"
  "py_upper (normalize_text v) = ''S'' \<Longrightarrow> parse_direction_id v = Inr 1"
  by (simp_all add: parse_direction_id_def)

lemma parse_direction_id_parsed:
  assumes "py_upper (normalize_text v) \<notin> {[], ''N'', ''S''}"
    and "parse_int_or_none (PStr (py_upper (normalize_text v))) = Inr parsed"
  shows "parse_direction_id v = Inr (if parsed = Some 1 then 1 else 0)"
  using assms by (auto simp: parse_direction_id_def)

text \<open>
  C5. Integer parsing is meant to give \<^verbatim>\<open>None\<close> on every text that is not an integer.
  On the text \<^verbatim>\<open>inf\<close>, \<^verbatim>\<open>float\<close> succeeds and \<^verbatim>\<open>int\<close> raises \<^verbatim>\<open>OverflowError\<close>, which
  \<^verbatim>\<open>except ValueError\<close> does not catch: the call raises.
\<close>

theorem parse_int_or_none_raises_on_inf:
  "parse_int_or_none (PStr ''inf'') = Inl OverflowError"
  by code_simp

text \<open>
  C8. Direction parsing hands every text other than blank, \<^verbatim>\<open>N\<close> and \<^verbatim>\<open>S\<close> to integer
  parsing, so it raises on \<^verbatim>\<open>inf\<close> as well and yields neither 0 nor 1 there.
\<close>

theorem parse_direction_id_raises_on_inf:
  "parse_direction_id (PStr ''inf'') = Inl OverflowError"
  by code_simp

text \<open>
  C6. A route row whose type is 0 and whose sort order is 0, read in subway mode into an
  empty route map: the record that is stored keeps the sort order 0, and its type is the
  default type 1 of the mode instead of 0, because
  \<^verbatim>\<open>parse_int_or_none(route_type) or MODE_DEFAULT_ROUTE_TYPE[mode]\<close> takes 0 for absent.
\<close>

theorem route_type_zero_becomes_default:
  "routes_row Subway tram_row [] =
    Inr [(''T1'',
          \<lparr>route_id = ''T1'', agency_id = None, route_short_name = [], route_long_name = [],
           route_desc = None, route_type = 1, route_url = None, route_color = None,
           route_text_color = None, route_sort_order = Some 0\<rparr>)]"
  by code_simp

subsection \<open>Stop-time sequencing\<close>

lemma map_of_record_sequence:
  "map_of (record_sequence k s rsm) key =
    (if key = k then
       (case map_of rsm k of
          None \<Rightarrow> Some s
        | Some None \<Rightarrow> Some s
        | Some (Some e) \<Rightarrow> (case s of None \<Rightarrow> Some (Some e) | Some n \<Rightarrow> Some (Some (min n e))))
     else map_of rsm key)"
  by (auto simp: record_sequence_def AList.update_conv' min_def split: option.splits)

lemma record_all_snoc:
  "record_all (updates @ [u]) rsm = record_sequence (fst u) (snd u) (record_all updates rsm)"
  by (simp add: record_all_def)

lemma finite_observed: "finite {n. (key, Some n) \<in> set updates}"
proof -
  have "{n. (key, Some n) \<in> set updates} \<subseteq> (\<lambda>u. the (snd u)) ` set updates"
    by force
  then show ?thesis
    by (rule finite_subset) simp
qed

lemma map_of_record_all:
  "map_of (record_all updates []) key =
     (if key \<notin> fst ` set updates then None
      else if \<exists>n. (key, Some n) \<in> set updates
           then Some (Some (Min {n. (key, Some n) \<in> set updates}))
           else Some None)"
proof (induction updates rule: rev_induct)
  case Nil
  show ?case by (simp add: record_all_def)
next
  case (snoc u updates)
  obtain k s where u: "u = (k, s)" by (cases u)
  let ?S = "{n. (key, Some n) \<in> set updates}"
  have fin: "finite ?S" by (rule finite_observed)
  show ?case
  proof (cases "key = k")
    case False
    then have "{n. (key, Some n) \<in> set (updates @ [u])} = ?S"
      and "key \<in> fst ` set (updates @ [u]) \<longleftrightarrow> key \<in> fst ` set updates"
      and "(\<exists>n. (key, Some n) \<in> set (updates @ [u])) \<longleftrightarrow> (\<exists>n. (key, Some n) \<in> set updates)"
      by (auto simp: u)
    with False snoc.IH show ?thesis
      by (simp add: record_all_snoc map_of_record_sequence u)
  next
    case True
    have inkeys: "key \<in> fst ` set (updates @ [u])"
      by (simp add: u True)
    have notin: "key \<notin> fst ` set updates \<Longrightarrow> ?S = {}"
      by force
    show ?thesis
    proof (cases s)
      case None
      then have same: "{n. (key, Some n) \<in> set (updates @ [u])} = ?S"
        and ex: "(\<exists>n. (key, Some n) \<in> set (updates @ [u])) \<longleftrightarrow> (\<exists>n. (key, Some n) \<in> set updates)"
        by (auto simp: u)
      have nex: "key \<notin> fst ` set updates \<Longrightarrow> \<not> (\<exists>n. (key, Some n) \<in> set updates)"
        by force
      show ?thesis
        unfolding record_all_snoc map_of_record_sequence same ex
        using inkeys nex snoc.IH None True
        by (auto simp: u)
    next
      case (Some n)
      have ins: "{m. (key, Some m) \<in> set (updates @ [u])} = insert n ?S"
        by (auto simp: u True Some)
      have ex: "\<exists>m. (key, Some m) \<in> set (updates @ [u])"
        by (auto simp: u True Some)
      have lhs: "map_of (record_all (updates @ [u]) []) key =
          (case map_of (record_all updates []) key of
             None \<Rightarrow> Some (Some n)
           | Some None \<Rightarrow> Some (Some n)
           | Some (Some e) \<Rightarrow> Some (Some (min n e)))"
        by (simp add: record_all_snoc map_of_record_sequence u True Some split: option.splits)
      have rhs: "(if key \<notin> fst ` set (updates @ [u]) then None
          else if \<exists>m. (key, Some m) \<in> set (updates @ [u])
               then Some (Some (Min {m. (key, Some m) \<in> set (updates @ [u])}))
               else Some None) = Some (Some (Min (insert n ?S)))"
        using inkeys ex by (simp only: ins if_True if_False simp_thms)
      show ?thesis
      proof (cases "?S = {}")
        case empty: True
        then have "\<not> (\<exists>m. (key, Some m) \<in> set updates)" by blast
        with snoc.IH have "map_of (record_all updates []) key = None
            \<or> map_of (record_all updates []) key = Some None"
          by (simp split: if_splits)
        then have "map_of (record_all (updates @ [u]) []) key = Some (Some n)"
          unfolding lhs by auto
        moreover have "Min (insert n ?S) = n"
          by (simp add: empty)
        ultimately show ?thesis
          unfolding rhs by simp
      next
        case nonempty: False
        then have exm: "\<exists>m. (key, Some m) \<in> set updates" by blast
        then have "key \<in> fst ` set updates" by force
        with snoc.IH exm have "map_of (record_all updates []) key = Some (Some (Min ?S))"
          by simp
        then have "map_of (record_all (updates @ [u]) []) key = Some (Some (min n (Min ?S)))"
          unfolding lhs by simp
        moreover have "Min (insert n ?S) = min n (Min ?S)"
          using fin nonempty by (rule Min_insert)
        ultimately show ?thesis
          unfolding rhs by simp
      qed
    qed
  qed
qed

text \<open>
  C3. After any run of stop-time updates that starts from the empty assignment map, a key
  that no update named is not in the map, and a key that was named holds the least
  concrete sequence among its updates, or null when all of them were null. A null update
  leaves a stored concrete sequence as it is, and a concrete update replaces a stored
  null.
\<close>

theorem assignment_sequence_is_minimum:
  "map_of (record_all updates []) key =
     (if key \<notin> fst ` set updates then None
      else if \<exists>n. (key, Some n) \<in> set updates
           then Some (Some (Min {n. (key, Some n) \<in> set updates}))
           else Some None)
   \<and> (map_of rsm key = Some (Some e) \<longrightarrow> map_of (record_sequence key None rsm) key = Some (Some e))
   \<and> (map_of rsm key = Some None \<longrightarrow> map_of (record_sequence key (Some n) rsm) key = Some (Some n))"
  by (simp add: map_of_record_all map_of_record_sequence)

theorem assignment_sequence_is_minimum_witness:
  "map_of (record_all [(example_key, Some 3), (example_key, Some 1)] []) example_key = Some (Some 1)
   \<and> Min {n. (example_key, Some n) \<in> set [(example_key, Some 3), (example_key, Some 1)]} = (1::int)
   \<and> map_of (record_sequence example_key None [(example_key, Some 1)]) example_key = Some (Some 1)
   \<and> map_of (record_sequence example_key (Some 5) [(example_key, None)]) example_key = Some (Some 5)"
proof -
  have run: "map_of (record_all [(example_key, Some 3), (example_key, Some 1)] []) example_key
      = Some (Some 1)"
    by code_simp
  from assignment_sequence_is_minimum
    [where updates = "[(example_key, Some 3), (example_key, Some 1)]" and key = example_key
       and rsm = "[(example_key, Some 1)]" and e = 1]
  have first: "Min {n. (example_key, Some n) \<in> set [(example_key, Some 3), (example_key, Some 1)]} = (1::int)"
    and null_kept:
      "map_of (record_sequence example_key None [(example_key, Some 1)]) example_key = Some (Some 1)"
    unfolding run by (auto split: if_splits)
  from assignment_sequence_is_minimum
    [where rsm = "[(example_key, None)]" and key = example_key and n = 5]
  have concrete_wins:
    "map_of (record_sequence example_key (Some 5) [(example_key, None)]) example_key = Some (Some 5)"
    by simp
  from run first null_kept concrete_wins show ?thesis
    by simp
qed

text \<open>The stop-times loop only changes the assignment map by such updates.\<close>

lemma stop_times_loop_updates:
  "for_rows (stop_times_row tm l sm) rows st = Inr st'
    \<Longrightarrow> \<exists>updates. fst st' = record_all updates (fst st)"
proof (induction rows arbitrary: st)
  case Nil
  then show ?case by (auto intro: exI [of _ "[]"] simp: record_all_def)
next
  case (Cons r rows)
  then obtain st1 where step: "stop_times_row tm l sm r st = Inr st1"
    and rest: "for_rows (stop_times_row tm l sm) rows st1 = Inr st'"
    by (auto split: sum.splits)
  from step have "fst st1 = fst st \<or> (\<exists>k s. fst st1 = record_sequence k s (fst st))"
    by (fastforce simp: stop_times_row_def Let_def split: if_splits option.splits sum.splits prod.splits)
  then obtain us where us: "fst st1 = record_all us (fst st)"
  proof
    assume "fst st1 = fst st"
    then have "fst st1 = record_all [] (fst st)" by (simp add: record_all_def)
    then show ?thesis by (rule that)
  next
    assume "\<exists>k s. fst st1 = record_sequence k s (fst st)"
    then obtain k s where "fst st1 = record_sequence k s (fst st)" by blast
    then have "fst st1 = record_all [(k, s)] (fst st)" by (simp add: record_all_def)
    then show ?thesis by (rule that)
  qed
  from Cons.IH [OF rest] obtain vs where "fst st' = record_all vs (fst st1)" by blast
  with us have "fst st' = record_all (us @ vs) (fst st)"
    by (simp add: record_all_def)
  then show ?case by blast
qed
lemma stop_times_row_blank:
  "normalize_text (r ''trip_id'') = [] \<or> normalize_text (r ''stop_id'') = []
    \<Longrightarrow> stop_times_row tm l sm r st = Inr st"
  by (auto simp: stop_times_row_def Let_def)

lemma stop_times_row_missing_trip:
  "normalize_text (r ''trip_id'') \<noteq> [] \<Longrightarrow> normalize_text (r ''stop_id'') \<noteq> []
    \<Longrightarrow> map_of tm (normalize_text (r ''trip_id'')) = None
    \<Longrightarrow> stop_times_row tm l sm r (rsm, refs, ids) = Inr (rsm, Suc refs, ids)"
  by (simp add: stop_times_row_def Let_def)

lemma stop_times_row_missing_stop:
  "normalize_text (r ''trip_id'') \<noteq> [] \<Longrightarrow> normalize_text (r ''stop_id'') \<noteq> []
    \<Longrightarrow> map_of tm (normalize_text (r ''trip_id'')) = Some td
    \<Longrightarrow> (case map_of l (normalize_text (r ''stop_id'')) of
           None \<Rightarrow> normalize_text (r ''stop_id'') | Some sid \<Rightarrow> sid) \<notin> fst ` set sm
    \<Longrightarrow> stop_times_row tm l sm r (rsm, refs, ids)
        = Inr (rsm, refs, insert (normalize_text (r ''stop_id'')) ids)"
  by (cases td) (simp add: stop_times_row_def Let_def)

lemma stop_times_row_counts:
  assumes "stop_times_row tm l sm r (rsm, refs, ids) = Inr (rsm', refs', ids')"
  shows "refs' = refs + (if normalize_text (r ''trip_id'') \<noteq> [] \<and> normalize_text (r ''stop_id'') \<noteq> []
                \<and> map_of tm (normalize_text (r ''trip_id'')) = None then 1 else 0)"
    and "ids' = ids \<union> (if normalize_text (r ''trip_id'') \<noteq> [] \<and> normalize_text (r ''stop_id'') \<noteq> []
                \<and> map_of tm (normalize_text (r ''trip_id'')) \<noteq> None
                \<and> (case map_of l (normalize_text (r ''stop_id'')) of
                      None \<Rightarrow> normalize_text (r ''stop_id'') | Some sid \<Rightarrow> sid) \<notin> fst ` set sm
              then {normalize_text (r ''stop_id'')} else {})"
  using assms
  by (auto simp: stop_times_row_def Let_def split: if_splits option.splits sum.splits prod.splits)

lemma stop_times_loop_counts:
  "for_rows (stop_times_row tm l sm) rows (rsm, refs, ids) = Inr (rsm', refs', ids')
    \<Longrightarrow> refs' = refs + length (filter (\<lambda>r. normalize_text (r ''trip_id'') \<noteq> []
                \<and> normalize_text (r ''stop_id'') \<noteq> []
                \<and> map_of tm (normalize_text (r ''trip_id'')) = None) rows)
      \<and> ids' = ids \<union> {normalize_text (r ''stop_id'') | r. r \<in> set rows
                \<and> normalize_text (r ''trip_id'') \<noteq> [] \<and> normalize_text (r ''stop_id'') \<noteq> []
                \<and> map_of tm (normalize_text (r ''trip_id'')) \<noteq> None
                \<and> (case map_of l (normalize_text (r ''stop_id'')) of
                      None \<Rightarrow> normalize_text (r ''stop_id'') | Some sid \<Rightarrow> sid) \<notin> fst ` set sm}"
proof (induction rows arbitrary: rsm refs ids)
  case Nil
  then show ?case by simp
next
  case (Cons r rows)
  from Cons.prems obtain rsm1 refs1 ids1
    where step: "stop_times_row tm l sm r (rsm, refs, ids) = Inr (rsm1, refs1, ids1)"
      and rest: "for_rows (stop_times_row tm l sm) rows (rsm1, refs1, ids1) = Inr (rsm', refs', ids')"
    by (auto split: sum.splits)
  note c = stop_times_row_counts [OF step]
  note ih = Cons.IH [OF rest]
  show ?case
  proof
    show "refs' = refs + length (filter (\<lambda>r. normalize_text (r ''trip_id'') \<noteq> []
                \<and> normalize_text (r ''stop_id'') \<noteq> []
                \<and> map_of tm (normalize_text (r ''trip_id'')) = None) (r # rows))"
      using ih c(1) by simp
    show "ids' = ids \<union> {normalize_text (ra ''stop_id'') | ra. ra \<in> set (r # rows)
                \<and> normalize_text (ra ''trip_id'') \<noteq> [] \<and> normalize_text (ra ''stop_id'') \<noteq> []
                \<and> map_of tm (normalize_text (ra ''trip_id'')) \<noteq> None
                \<and> (case map_of l (normalize_text (ra ''stop_id'')) of
                      None \<Rightarrow> normalize_text (ra ''stop_id'') | Some sid \<Rightarrow> sid) \<notin> fst ` set sm}"
      using ih c(2) by (auto split: if_splits)
  qed
qed

text \<open>
  C7, as the code has it. A stop-time row with a blank trip id or a blank stop id is
  skipped and changes nothing. A row with both ids whose trip id is not in the trip table
  adds one to the missing-trip counter and leaves the assignment map and the set of
  missing stop ids as they are. A row with both ids whose trip is known and whose
  resolved station id is not in the station map adds its raw stop id to the set of
  missing stop ids and leaves the counter and the assignment map as they are. Over a
  whole loop the counter grows by the number of rows of the second kind, and the set by
  the stop ids of the rows of the third kind. The report of the mode holds the counter,
  the number of distinct missing stop ids, and the first 50 of them in sorted order.
\<close>

theorem stop_time_reference_failures:
  "(normalize_text (r ''trip_id'') = [] \<or> normalize_text (r ''stop_id'') = []
      \<longrightarrow> stop_times_row tm l sm r (rsm, refs, ids) = Inr (rsm, refs, ids))
   \<and> (normalize_text (r ''trip_id'') \<noteq> [] \<and> normalize_text (r ''stop_id'') \<noteq> []
        \<and> map_of tm (normalize_text (r ''trip_id'')) = None
      \<longrightarrow> stop_times_row tm l sm r (rsm, refs, ids) = Inr (rsm, Suc refs, ids))
   \<and> (normalize_text (r ''trip_id'') \<noteq> [] \<and> normalize_text (r ''stop_id'') \<noteq> []
        \<and> map_of tm (normalize_text (r ''trip_id'')) = Some td
        \<and> (case map_of l (normalize_text (r ''stop_id'')) of
              None \<Rightarrow> normalize_text (r ''stop_id'') | Some sid \<Rightarrow> sid) \<notin> fst ` set sm
      \<longrightarrow> stop_times_row tm l sm r (rsm, refs, ids)
          = Inr (rsm, refs, insert (normalize_text (r ''stop_id'')) ids))
   \<and> (for_rows (stop_times_row tm l sm) rows (rsm, refs, ids) = Inr (rsm', refs', ids')
      \<longrightarrow> refs' = refs + length (filter (\<lambda>r. normalize_text (r ''trip_id'') \<noteq> []
                  \<and> normalize_text (r ''stop_id'') \<noteq> []
                  \<and> map_of tm (normalize_text (r ''trip_id'')) = None) rows)
        \<and> ids' = ids \<union> {normalize_text (r ''stop_id'') | r. r \<in> set rows
                  \<and> normalize_text (r ''trip_id'') \<noteq> [] \<and> normalize_text (r ''stop_id'') \<noteq> []
                  \<and> map_of tm (normalize_text (r ''trip_id'')) \<noteq> None
                  \<and> (case map_of l (normalize_text (r ''stop_id'')) of
                        None \<Rightarrow> normalize_text (r ''stop_id'') | Some sid \<Rightarrow> sid) \<notin> fst ` set sm})
   \<and> missingTripRefs (emit_result mode s) = missing_trip_refs s
   \<and> missingStopRefs (emit_result mode s) = card (missing_stop_ids s)
   \<and> sampleMissingStopIds (emit_result mode s) = take 50 (sorted_list_of_set (missing_stop_ids s))
   \<and> length (sampleMissingStopIds (emit_result mode s)) \<le> 50
   \<and> (finite (missing_stop_ids s)
      \<longrightarrow> set (sampleMissingStopIds (emit_result mode s)) \<subseteq> missing_stop_ids s)"
proof -
  have sample: "sampleMissingStopIds (emit_result mode s) = take 50 (sorted_list_of_set (missing_stop_ids s))"
    by (simp add: emit_result_def Let_def)
  have subset: "set (sampleMissingStopIds (emit_result mode s)) \<subseteq> missing_stop_ids s"
    if "finite (missing_stop_ids s)"
    unfolding sample using that set_take_subset [of 50 "sorted_list_of_set (missing_stop_ids s)"]
    by simp
  show ?thesis
    using stop_times_row_blank [of r tm l sm "(rsm, refs, ids)"]
      stop_times_row_missing_trip [of r tm l sm rsm refs ids]
      stop_times_row_missing_stop [of r tm td l sm rsm refs ids]
      stop_times_loop_counts [of tm l sm rows rsm refs ids rsm' refs' ids']
      subset
    by (simp add: sample) (simp add: emit_result_def Let_def)
qed

text \<open>
  The specification counts every row whose trip id is not in the trip table. A row of
  the unknown trip \<^verbatim>\<open>T9\<close> whose stop id is missing is skipped before the trip is looked
  up: the counter stays at 0.
\<close>

theorem blank_stop_row_not_counted:
  "map_of example_trip_map (normalize_text (blank_stop_time_row ''trip_id'')) = None
   \<and> stop_times_row example_trip_map [] [] blank_stop_time_row ([], 0, {}) = Inr ([], 0, {})"
  by code_simp

theorem stop_time_reference_failures_witness:
  "stop_times_row example_trip_map [] [] blank_stop_time_row ([], 0, {}) = Inr ([], 0, {})
   \<and> stop_times_row example_trip_map [] [] unknown_trip_row ([], 0, {}) = Inr ([], 1, {})
   \<and> stop_times_row example_trip_map [] [] unknown_stop_row ([], 0, {}) = Inr ([], 0, {''999''})
   \<and> length (filter (\<lambda>r. normalize_text (r ''trip_id'') \<noteq> [] \<and> normalize_text (r ''stop_id'') \<noteq> []
          \<and> map_of example_trip_map (normalize_text (r ''trip_id'')) = None)
        [blank_stop_time_row, unknown_trip_row, unknown_stop_row]) = 1
   \<and> set (sampleMissingStopIds (emit_result Subway (initial_state\<lparr>missing_stop_ids := {''999''}\<rparr>)))
      \<subseteq> {''999''}"
proof -
  have blank: "normalize_text (blank_stop_time_row ''trip_id'') = []
      \<or> normalize_text (blank_stop_time_row ''stop_id'') = []"
    by code_simp
  have no_trip: "normalize_text (unknown_trip_row ''trip_id'') \<noteq> []
      \<and> normalize_text (unknown_trip_row ''stop_id'') \<noteq> []
      \<and> map_of example_trip_map (normalize_text (unknown_trip_row ''trip_id'')) = None"
    by code_simp
  have no_stop: "normalize_text (unknown_stop_row ''trip_id'') \<noteq> []
      \<and> normalize_text (unknown_stop_row ''stop_id'') \<noteq> []
      \<and> map_of example_trip_map (normalize_text (unknown_stop_row ''trip_id'')) = Some (''A'', 0)
      \<and> (case map_of ([] :: (string \<times> string) list) (normalize_text (unknown_stop_row ''stop_id'')) of
            None \<Rightarrow> normalize_text (unknown_stop_row ''stop_id'') | Some sid \<Rightarrow> sid)
          \<notin> fst ` set ([] :: station_map)"
    by code_simp
  have stop_id: "normalize_text (unknown_stop_row ''stop_id'') = ''999''"
    by code_simp
  have loop: "for_rows (stop_times_row example_trip_map [] [])
      [blank_stop_time_row, unknown_trip_row, unknown_stop_row] ([], 0, {}) = Inr ([], 1, {''999''})"
    by code_simp
  have fin: "finite (missing_stop_ids (initial_state\<lparr>missing_stop_ids := {''999''}\<rparr>))"
    by simp
  from stop_time_reference_failures
    [where r = blank_stop_time_row and tm = example_trip_map and l = "[]" and sm = "[]"
       and rsm = "[]" and refs = 0 and ids = "{}"] blank
  have a: "stop_times_row example_trip_map [] [] blank_stop_time_row ([], 0, {}) = Inr ([], 0, {})"
    by blast
  from stop_time_reference_failures
    [where r = unknown_trip_row and tm = example_trip_map and l = "[]" and sm = "[]"
       and rsm = "[]" and refs = 0 and ids = "{}"] no_trip
  have b: "stop_times_row example_trip_map [] [] unknown_trip_row ([], 0, {}) = Inr ([], 1, {})"
    by simp
  from stop_time_reference_failures
    [where r = unknown_stop_row and tm = example_trip_map and l = "[]" and sm = "[]"
       and rsm = "[]" and refs = 0 and ids = "{}" and td = "(''A'', 0)"] no_stop
  have c: "stop_times_row example_trip_map [] [] unknown_stop_row ([], 0, {}) = Inr ([], 0, {''999''})"
    by (simp add: stop_id)
  note whole = stop_time_reference_failures
    [where r = blank_stop_time_row and td = "(''A'', 0)"
       and tm = example_trip_map and l = "[]" and sm = "[]"
       and rows = "[blank_stop_time_row, unknown_trip_row, unknown_stop_row]"
       and rsm = "[]" and refs = 0 and ids = "{}" and rsm' = "[]" and refs' = 1 and ids' = "{''999''}"
       and s = "initial_state\<lparr>missing_stop_ids := {''999''}\<rparr>" and mode = Subway]
  from whole loop
  have "(1::nat) = 0 + length (filter (\<lambda>r. normalize_text (r ''trip_id'') \<noteq> []
          \<and> normalize_text (r ''stop_id'') \<noteq> []
          \<and> map_of example_trip_map (normalize_text (r ''trip_id'')) = None)
        [blank_stop_time_row, unknown_trip_row, unknown_stop_row])"
    by blast
  then have d: "length (filter (\<lambda>r. normalize_text (r ''trip_id'') \<noteq> [] \<and> normalize_text (r ''stop_id'') \<noteq> []
          \<and> map_of example_trip_map (normalize_text (r ''trip_id'')) = None)
        [blank_stop_time_row, unknown_trip_row, unknown_stop_row]) = 1"
    by arith
  from whole fin
  have "set (sampleMissingStopIds (emit_result Subway (initial_state\<lparr>missing_stop_ids := {''999''}\<rparr>)))
      \<subseteq> missing_stop_ids (initial_state\<lparr>missing_stop_ids := {''999''}\<rparr>)"
    by blast
  then have e: "set (sampleMissingStopIds (emit_result Subway (initial_state\<lparr>missing_stop_ids := {''999''}\<rparr>)))
      \<subseteq> {''999''}"
    by simp
  from a b c d e show ?thesis
    by blast
qed

subsection \<open>The invariant holds after every dataset\<close>

lemma record_sequence_keys:
  "fst ` set (record_sequence k s rsm) \<subseteq> insert k (fst ` set rsm)"
  by (auto simp: record_sequence_def AList.dom_update split: option.splits if_splits)

lemma record_sequence_distinct:
  "distinct (map fst rsm) \<Longrightarrow> distinct (map fst (record_sequence k s rsm))"
  by (auto simp: record_sequence_def AList.distinct_update split: option.splits)

lemma stop_times_row_invariant:
  assumes "stop_times_row tm l sm r st = Inr st'"
    and "distinct (map fst (fst st)) \<and> (\<forall>k \<in> fst ` set (fst st). snd (snd k) \<in> fst ` set sm)"
  shows "distinct (map fst (fst st')) \<and> (\<forall>k \<in> fst ` set (fst st'). snd (snd k) \<in> fst ` set sm)"
proof -
  from assms(1) have "fst st' = fst st
      \<or> (\<exists>rid d sid s. sid \<in> fst ` set sm \<and> fst st' = record_sequence (rid, d, sid) s (fst st))"
    by (fastforce simp: stop_times_row_def Let_def split: if_splits option.splits sum.splits prod.splits)
  then show ?thesis
  proof
    assume "fst st' = fst st"
    with assms(2) show ?thesis by simp
  next
    assume "\<exists>rid d sid s. sid \<in> fst ` set sm \<and> fst st' = record_sequence (rid, d, sid) s (fst st)"
    then obtain rid d sid s where sid: "sid \<in> fst ` set sm"
      and eq: "fst st' = record_sequence (rid, d, sid) s (fst st)" by blast
    have "distinct (map fst (fst st'))"
      unfolding eq using assms(2) by (simp add: record_sequence_distinct)
    moreover have "\<forall>k \<in> fst ` set (fst st'). snd (snd k) \<in> fst ` set sm"
    proof
      fix k assume "k \<in> fst ` set (fst st')"
      with record_sequence_keys [of "(rid, d, sid)" s "fst st"]
      have "k = (rid, d, sid) \<or> k \<in> fst ` set (fst st)"
        unfolding eq by blast
      with sid assms(2) show "snd (snd k) \<in> fst ` set sm" by force
    qed
    ultimately show ?thesis ..
  qed
qed

lemma stop_times_loop_invariant:
  assumes "for_rows (stop_times_row tm l sm) rows st = Inr st'"
    and "distinct (map fst (fst st)) \<and> (\<forall>k \<in> fst ` set (fst st). snd (snd k) \<in> fst ` set sm)"
  shows "distinct (map fst (fst st')) \<and> (\<forall>k \<in> fst ` set (fst st'). snd (snd k) \<in> fst ` set sm)"
  using assms(1,2)
  by (rule for_rows_invariant) (rule stop_times_row_invariant)

lemma process_dataset_parts:
  assumes "process_dataset mode f s = Inr s'"
  shows "\<exists>srows trows tm l.
      station_map s' = fst (fold (stops_row mode) srows (station_map s, []))
      \<and> for_rows (stop_times_row tm l (station_map s')) trows
           (route_stop_map s, missing_trip_refs s, missing_stop_ids s)
         = Inr (route_stop_map s', missing_trip_refs s', missing_stop_ids s')"
proof -
  let ?srows = "df_rows (fold add_optional [''stop_lat'', ''stop_lon'', ''parent_station''] (stops f))"
  let ?trows = "df_rows (add_optional ''stop_sequence'' (stop_times f))"
  let ?st = "fold (stops_row mode) ?srows (station_map s, [])"
  from assms have "station_map s' = fst ?st
      \<and> (\<exists>tm. for_rows (stop_times_row tm (snd ?st) (station_map s')) ?trows
           (route_stop_map s, missing_trip_refs s, missing_stop_ids s)
         = Inr (route_stop_map s', missing_trip_refs s', missing_stop_ids s'))"
    by (auto simp: process_dataset_def Let_def split: sum.splits prod.splits)
  then show ?thesis by blast
qed

lemma process_dataset_ok:
  assumes "process_dataset mode f s = Inr s'" and "state_ok s"
  shows "state_ok s'"
proof -
  from process_dataset_parts [OF assms(1)] obtain srows trows tm l
    where sm: "station_map s' = fst (fold (stops_row mode) srows (station_map s, []))"
      and loop: "for_rows (stop_times_row tm l (station_map s')) trows
           (route_stop_map s, missing_trip_refs s, missing_stop_ids s)
         = Inr (route_stop_map s', missing_trip_refs s', missing_stop_ids s')"
    by blast
  have keys: "fst ` set (station_map s) \<subseteq> fst ` set (station_map s')"
    unfolding sm using stops_loop_keys [of "(station_map s, [])" mode srows] by simp
  have ids: "\<forall>(k, st) \<in> set (station_map s'). stop_id st = k"
    unfolding sm using stops_loop_stop_id [of "(station_map s, [])" mode srows] assms(2)
    by (simp add: state_ok_def)
  have "distinct (map fst (route_stop_map s))
      \<and> (\<forall>k \<in> fst ` set (route_stop_map s). snd (snd k) \<in> fst ` set (station_map s'))"
    using assms(2) keys by (auto simp: state_ok_def)
  with stop_times_loop_invariant [OF loop]
  have "distinct (map fst (route_stop_map s'))
      \<and> (\<forall>k \<in> fst ` set (route_stop_map s'). snd (snd k) \<in> fst ` set (station_map s'))"
    by simp
  with ids show ?thesis by (simp add: state_ok_def)
qed

lemma datasets_ok:
  "for_rows (process_dataset mode) feeds initial_state = Inr s \<Longrightarrow> state_ok s"
proof (rule for_rows_invariant [where P = state_ok])
  show "state_ok initial_state" by (simp add: state_ok_def initial_state_def)
qed (auto intro: process_dataset_ok)

subsection \<open>Emitted rows\<close>

lemma example_run: "process_mode Subway [example_feed] = Inr example_result"
  by code_simp

lemma row_sort_key_row_of: "row_sort_key (route_stop_row_of item) = route_stop_sort_key item"
  by (cases item rule: prod.exhaust [where 'a = route_stop_key])
     (auto simp: row_sort_key_def route_stop_row_of_def route_stop_sort_key_def seq_or_sentinel_def
        split: prod.splits option.splits)

lemma fst_of_sort_key: "(\<lambda>(a, b, c, d). (a, b, d)) (route_stop_sort_key item) = fst item"
  by (auto simp: route_stop_sort_key_def split: prod.splits option.splits)

lemma distinct_sort_keys:
  assumes "distinct (map fst rsm)"
  shows "distinct (map route_stop_sort_key rsm)"
proof -
  have "map fst rsm = map (\<lambda>(a, b, c, d). (a, b, d)) (map route_stop_sort_key rsm)"
    by (simp add: fst_of_sort_key)
  with assms show ?thesis
    by (metis distinct_map)
qed

lemma emitted_rows_strictly_sorted:
  assumes "distinct (map fst rsm)"
  shows "sorted_wrt (<) (map row_sort_key (emit_route_stops_rows rsm))"
proof -
  have eq: "map row_sort_key (emit_route_stops_rows rsm)
      = map route_stop_sort_key (sort_key route_stop_sort_key rsm)"
    by (simp add: emit_route_stops_rows_def row_sort_key_row_of)
  have "distinct (map route_stop_sort_key rsm)"
    using assms by (rule distinct_sort_keys)
  then have "distinct (map route_stop_sort_key (sort_key route_stop_sort_key rsm))"
    by (simp add: distinct_map)
  moreover have "sorted (map route_stop_sort_key (sort_key route_stop_sort_key rsm))"
    by (rule sorted_sort_key)
  ultimately show ?thesis
    unfolding eq by (simp add: strict_sorted_iff)
qed

lemma process_mode_Inr:
  assumes "process_mode mode feeds = Inr res"
  shows "\<exists>s. for_rows (process_dataset mode) feeds initial_state = Inr s \<and> res = emit_result mode s"
  using assms by (auto simp: process_mode_def split: sum.splits)

lemma route_stops_rows_emit [simp]:
  "route_stops_rows (emit_result mode s) = emit_route_stops_rows (route_stop_map s)"
  "stations_rows (emit_result mode s) = emit_stations_rows mode (station_map s)"
  by (simp_all add: emit_result_def Let_def)

text \<open>
  C4, as the code has it. The emitted assignment rows are strictly ascending by (route id,
  direction, sequence, station id), where an absent sequence counts as \<open>2 ^ 31 - 1\<close>: it
  sorts after every concrete sequence below that number, not after every concrete
  sequence. In particular, among the rows of one route and direction, the pairs
  (sequence or \<open>2 ^ 31 - 1\<close>, station id) are strictly ascending.
\<close>

theorem assignment_rows_sorted_by_sentinel:
  assumes "process_mode mode feeds = Inr res"
  shows "sorted_wrt (<) (map row_sort_key (route_stops_rows res))
    \<and> (\<forall>i j. i < j \<and> j < length (route_stops_rows res)
          \<and> rs_route_id (route_stops_rows res ! i) = rs_route_id (route_stops_rows res ! j)
          \<and> rs_direction_id (route_stops_rows res ! i) = rs_direction_id (route_stops_rows res ! j)
        \<longrightarrow> (seq_or_sentinel (route_stops_rows res ! i), rs_stop_id (route_stops_rows res ! i))
            < (seq_or_sentinel (route_stops_rows res ! j), rs_stop_id (route_stops_rows res ! j)))"
proof -
  from process_mode_Inr [OF assms] obtain s
    where run: "for_rows (process_dataset mode) feeds initial_state = Inr s"
      and res: "res = emit_result mode s" by blast
  from datasets_ok [OF run] have "distinct (map fst (route_stop_map s))"
    by (simp add: state_ok_def)
  then have sorted: "sorted_wrt (<) (map row_sort_key (route_stops_rows res))"
    unfolding res by (simp add: emitted_rows_strictly_sorted)
  have "(seq_or_sentinel (route_stops_rows res ! i), rs_stop_id (route_stops_rows res ! i))
            < (seq_or_sentinel (route_stops_rows res ! j), rs_stop_id (route_stops_rows res ! j))"
    if "i < j" "j < length (route_stops_rows res)"
      "rs_route_id (route_stops_rows res ! i) = rs_route_id (route_stops_rows res ! j)"
      "rs_direction_id (route_stops_rows res ! i) = rs_direction_id (route_stops_rows res ! j)"
    for i j
  proof -
    from sorted that(1,2)
    have "map row_sort_key (route_stops_rows res) ! i < map row_sort_key (route_stops_rows res) ! j"
      by (simp add: sorted_wrt_iff_nth_less)
    with that show ?thesis
      by (simp add: row_sort_key_def less_prod_def)
  qed
  with sorted show ?thesis by blast
qed

text \<open>
  With an absent sequence as infinity, as the specification has it, the order fails:
  station 101 has no sequence and stop 102 has the sequence 3000000000, and the row of
  station 101 is emitted first.
\<close>

theorem absent_sequence_not_last:
  "process_mode Subway [big_sequence_feed] = Inr big_sequence_result
   \<and> \<not> sorted (map spec_row_sort_key (route_stops_rows big_sequence_result))"
  by code_simp

theorem assignment_rows_sorted_by_sentinel_witness:
  "process_mode Subway [example_feed] = Inr example_result
   \<and> sorted_wrt (<) (map row_sort_key (route_stops_rows example_result))
   \<and> (seq_or_sentinel (route_stops_rows example_result ! 0), rs_stop_id (route_stops_rows example_result ! 0))
      < (seq_or_sentinel (route_stops_rows example_result ! 1), rs_stop_id (route_stops_rows example_result ! 1))"
proof -
  note sorted = assignment_rows_sorted_by_sentinel [OF example_run]
  from sorted have strict: "sorted_wrt (<) (map row_sort_key (route_stops_rows example_result))"
    by blast
  from sorted have "\<forall>i j. i < j \<and> j < length (route_stops_rows example_result)
          \<and> rs_route_id (route_stops_rows example_result ! i) = rs_route_id (route_stops_rows example_result ! j)
          \<and> rs_direction_id (route_stops_rows example_result ! i)
              = rs_direction_id (route_stops_rows example_result ! j)
        \<longrightarrow> (seq_or_sentinel (route_stops_rows example_result ! i), rs_stop_id (route_stops_rows example_result ! i))
            < (seq_or_sentinel (route_stops_rows example_result ! j), rs_stop_id (route_stops_rows example_result ! j))"
    by blast
  from this [rule_format, of 0 1]
  have "(seq_or_sentinel (route_stops_rows example_result ! 0), rs_stop_id (route_stops_rows example_result ! 0))
      < (seq_or_sentinel (route_stops_rows example_result ! 1), rs_stop_id (route_stops_rows example_result ! 1))"
    by (simp add: example_result_def)
  with example_run strict show ?thesis
    by blast
qed

text \<open>
  C10. Within one processing pass, the station id of every emitted assignment row is the
  station id of an emitted station row of the same pass.
\<close>

theorem assignment_rows_reference_stations:
  assumes "process_mode mode feeds = Inr res"
  shows "\<forall>r \<in> set (route_stops_rows res). \<exists>s \<in> set (stations_rows res). row_stop_id s = rs_stop_id r"
proof
  fix r assume r: "r \<in> set (route_stops_rows res)"
  from process_mode_Inr [OF assms] obtain s
    where run: "for_rows (process_dataset mode) feeds initial_state = Inr s"
      and res: "res = emit_result mode s" by blast
  from datasets_ok [OF run] have ok: "state_ok s" .
  from r obtain item where item: "item \<in> set (route_stop_map s)" and r_eq: "r = route_stop_row_of item"
    unfolding res by (auto simp: emit_route_stops_rows_def)
  have "rs_stop_id r = snd (snd (fst item))"
    unfolding r_eq by (simp add: route_stop_row_of_def split: prod.splits)
  moreover from ok item have "snd (snd (fst item)) \<in> fst ` set (station_map s)"
    by (auto simp: state_ok_def)
  ultimately obtain st where st: "(rs_stop_id r, st) \<in> set (station_map s)"
    by auto
  with ok have "stop_id st = rs_stop_id r"
    by (auto simp: state_ok_def)
  then have "row_stop_id (station_row_of mode st) = rs_stop_id r"
    by (simp add: station_row_of_def Let_def)
  moreover from st have "station_row_of mode st \<in> set (stations_rows res)"
    unfolding res by (force simp: emit_stations_rows_def)
  ultimately show "\<exists>s \<in> set (stations_rows res). row_stop_id s = rs_stop_id r"
    by blast
qed

theorem assignment_rows_reference_stations_witness:
  "process_mode Subway [example_feed] = Inr example_result
   \<and> rs_stop_id ` set (route_stops_rows example_result)
      \<subseteq> row_stop_id ` set (stations_rows example_result)"
proof -
  note all = assignment_rows_reference_stations [OF example_run]
  have "rs_stop_id ` set (route_stops_rows example_result)
      \<subseteq> row_stop_id ` set (stations_rows example_result)"
  proof
    fix x assume "x \<in> rs_stop_id ` set (route_stops_rows example_result)"
    then obtain r where r: "r \<in> set (route_stops_rows example_result)" and x: "x = rs_stop_id r"
      by blast
    from all r obtain s where "s \<in> set (stations_rows example_result)" and "row_stop_id s = rs_stop_id r"
      by blast
    with x show "x \<in> row_stop_id ` set (stations_rows example_result)"
      by force
  qed
  with example_run show ?thesis
    by blast
qed

subsection \<open>The transaction of \<^verbatim>\<open>main\<close>\<close>

lemma failing_run: "main failing_sink example_datasets [] = ([], Inl DatabaseError)"
  by code_simp

text \<open>
  C9, as the code has it. The clear and the writes of all four modes run in one
  transaction: when anything in the block fails (a statement of the sink or the parsing
  of a mode), the committed contents after \<^verbatim>\<open>main\<close> are those before it, so the writes of
  the earlier modes of the run are rolled back with the rest and no partly replaced state
  is committed; when the block ends, the committed contents are those that the whole
  block produced.
\<close>

theorem main_commits_all_or_nothing:
  "(snd (main exec ds committed) = Inl e \<longrightarrow> fst (main exec ds committed) = committed)
   \<and> (main exec ds committed = (db, Inr rep) \<longrightarrow> import_all exec ds committed = Inr (db, rep))"
  by (auto simp: main_def with_conn_def split: sum.splits prod.splits if_splits)

text \<open>
  The specification keeps the writes of earlier modes committed. Here the station rows of the second mode are rejected: the three inserts of the subway mode had
  succeeded in the transaction, and nothing of them is committed.
\<close>

theorem earlier_modes_not_committed:
  "process_mode Subway [subway_dir example_datasets] = Inr example_result
   \<and> insert_non_bus_mode failing_sink Subway example_result [Truncate_all]
      = Inr [Truncate_all,
             Insert_stations Subway (stations_rows example_result),
             Insert_routes Subway (routes_rows example_result),
             Insert_route_stops Subway (route_stops_rows example_result)]
   \<and> main failing_sink example_datasets [] = ([], Inl DatabaseError)"
proof -
  have "insert_non_bus_mode failing_sink Subway example_result [Truncate_all]
      = Inr [Truncate_all,
             Insert_stations Subway (stations_rows example_result),
             Insert_routes Subway (routes_rows example_result),
             Insert_route_stops Subway (route_stops_rows example_result)]"
    by code_simp
  with example_run failing_run show ?thesis
    by (simp add: example_datasets_def)
qed

theorem main_commits_all_or_nothing_witness:
  "fst (main failing_sink example_datasets []) = []
   \<and> import_all logging_sink empty_datasets [] = Inr ([Truncate_all], empty_report)"
proof -
  have failed: "snd (main failing_sink example_datasets []) = Inl DatabaseError"
    by (simp add: failing_run)
  have succeeded: "main logging_sink empty_datasets [] = ([Truncate_all], Inr empty_report)"
    by code_simp
  from main_commits_all_or_nothing
    [where exec = failing_sink and ds = example_datasets and committed = "[]" and e = DatabaseError]
    failed
  have rolled_back: "fst (main failing_sink example_datasets []) = []"
    by blast
  from main_commits_all_or_nothing
    [where exec = logging_sink and ds = empty_datasets and committed = "[]"
       and db = "[Truncate_all]" and rep = empty_report]
    succeeded
  have "import_all logging_sink empty_datasets [] = Inr ([Truncate_all], empty_report)"
    by blast
  with rolled_back show ?thesis
    by blast
qed

end
